theory Spec2Isabelle
  imports Main "HOL-Library.AList"
begin

section \<open>JavaScript values\<close>

text \<open>
  The plugin (\<^verbatim>\<open>src/lib/index.js\<close>) reads its configuration from the untyped tree that
  the host tool builds from the user's configuration file, so configuration data is modelled
  as an untyped value. An array carries its elements and any named properties assigned to
  it; every other object (plain object, class instance, function) carries its own
  properties, in insertion order. A number is an integer or \<^verbatim>\<open>NaN\<close>: the code only
  tests numbers for truthiness and compares them with the numbers of \<^verbatim>\<open>true\<close> and
  \<^verbatim>\<open>false\<close>.
\<close>

datatype jsval =
    JUndefined
  | JNull
  | JBool bool
  | JNum int
  | JNaN
  | JStr string
  | JArr "jsval list" "(string \<times> jsval) list"
  | JObj "(string \<times> jsval) list"

text \<open>
  Exceptions are values. A \<^verbatim>\<open>TypeError\<close> is raised by the language itself; a
  \<^verbatim>\<open>ProviderError\<close> is the rejection of a call to the cloud provider. Both are
  \<^verbatim>\<open>Error\<close> objects, whose \<^verbatim>\<open>message\<close> the plugin prints.
\<close>

datatype js_error = TypeError string | ProviderError string

fun message :: "js_error \<Rightarrow> string" where
  "message (TypeError m) = m"
| "message (ProviderError m) = m"

text \<open>
  What the code uses of the language and of its two libraries without defining it is a
  parameter of the model: properties found on the prototype chain or built into a
  primitive (\<open>inherited\<close>), the number a string or an object converts to under
  \<^verbatim>\<open>==\<close> (\<open>to_number\<close>, \<open>None\<close> when it is no integer), the string a value becomes
  inside a template literal (\<open>to_string\<close>), \<^verbatim>\<open>JSON.stringify\<close>, the call of a
  user-defined method (\<open>call_method\<close>), \<^verbatim>\<open>semver.satisfies\<close> and
  \<^verbatim>\<open>chalk.red\<close>. Every theorem below holds for every such host.
\<close>

record host =
  inherited :: "jsval \<Rightarrow> string \<Rightarrow> jsval"
  to_number :: "jsval \<Rightarrow> int option"
  to_string :: "jsval \<Rightarrow> string"
  json_stringify :: "jsval \<Rightarrow> jsval"
  call_method :: "jsval \<Rightarrow> string \<Rightarrow> jsval list \<Rightarrow> js_error + jsval"
  semver_satisfies :: "jsval \<Rightarrow> string \<Rightarrow> bool"
  chalk_red :: "string \<Rightarrow> string"

text \<open>Truthiness, as \<^verbatim>\<open>if (v)\<close>, \<^verbatim>\<open>!v\<close> and \<^verbatim>\<open>Boolean(v)\<close> decide it.\<close>

fun truthy :: "jsval \<Rightarrow> bool" where
  "truthy JUndefined = False"
| "truthy JNull = False"
| "truthy (JBool b) = b"
| "truthy (JNum n) = (n \<noteq> 0)"
| "truthy JNaN = False"
| "truthy (JStr s) = (s \<noteq> [])"
| "truthy (JArr xs ps) = True"
| "truthy (JObj ps) = True"

text \<open>
  Property read \<^verbatim>\<open>v[k]\<close>: a \<^verbatim>\<open>TypeError\<close> on \<^verbatim>\<open>undefined\<close> and \<^verbatim>\<open>null\<close>, an own
  property when there is one, else whatever the prototype chain or the primitive's
  wrapper gives.
\<close>

fun get_prop :: "host \<Rightarrow> jsval \<Rightarrow> string \<Rightarrow> js_error + jsval" where
  "get_prop h JUndefined k = Inl (TypeError ''Cannot read properties of undefined'')"
| "get_prop h JNull k = Inl (TypeError ''Cannot read properties of null'')"
| "get_prop h (JObj ps) k =
     (case map_of ps k of Some x \<Rightarrow> Inr x | None \<Rightarrow> Inr (inherited h (JObj ps) k))"
| "get_prop h (JArr xs ps) k =
     (case map_of ps k of Some x \<Rightarrow> Inr x | None \<Rightarrow> Inr (inherited h (JArr xs ps) k))"
| "get_prop h v k = Inr (inherited h v k)"

text \<open>
  Property write \<^verbatim>\<open>v[k] = x\<close> in strict mode (the file starts with
  \<^verbatim>\<open>'use strict'\<close>): a \<^verbatim>\<open>TypeError\<close> on every primitive.
\<close>

fun set_prop :: "jsval \<Rightarrow> string \<Rightarrow> jsval \<Rightarrow> js_error + jsval" where
  "set_prop (JObj ps) k x = Inr (JObj (AList.update k x ps))"
| "set_prop (JArr xs ps) k x = Inr (JArr xs (AList.update k x ps))"
| "set_prop v k x = Inl (TypeError ''Cannot create property'')"

definition bindE :: "'e + 'a \<Rightarrow> ('a \<Rightarrow> 'e + 'b) \<Rightarrow> 'e + 'b" where
  "bindE r f = (case r of Inl e \<Rightarrow> Inl e | Inr x \<Rightarrow> f x)"

section \<open>The configuration lookup \<^verbatim>\<open>get\<close>\<close>

text \<open>\<^verbatim>\<open>path.split('.')\<close>: the pieces between the dots, one piece for a path with no dot.\<close>

fun split_dot :: "string \<Rightarrow> string list" where
  "split_dot [] = [[]]"
| "split_dot (c # cs) =
     (if c = CHR ''.'' then [] # split_dot cs
      else (case split_dot cs of
              [] \<Rightarrow> [[c]]
            | w # ws \<Rightarrow> (c # w) # ws))"

text \<open>
  \<^verbatim>\<open>steps.every(step => !(step && !(obj = obj[step])))\<close>: the callback assigns the
  property to \<open>obj\<close> and answers whether it is truthy; \<^verbatim>\<open>every\<close> stops at the first
  \<^verbatim>\<open>false\<close>. The result is the answer of \<^verbatim>\<open>every\<close> with the last value of \<open>obj\<close>.
\<close>

fun every_step :: "host \<Rightarrow> jsval \<Rightarrow> string list \<Rightarrow> js_error + (bool \<times> jsval)" where
  "every_step h obj [] = Inr (True, obj)"
| "every_step h obj (step # rest) =
     (if step \<noteq> [] then
        (case get_prop h obj step of
           Inl e \<Rightarrow> Inl e
         | Inr v \<Rightarrow> if \<not> truthy v then Inr (False, v) else every_step h v rest)
      else every_step h obj rest)"

definition get :: "host \<Rightarrow> jsval \<Rightarrow> string \<Rightarrow> jsval \<Rightarrow> js_error + jsval" where
  "get h obj path defaultValue =
     (case every_step h obj (filter (\<lambda>step. step \<noteq> []) (split_dot path)) of
        Inl e \<Rightarrow> Inl e
      | Inr (every, obj') \<Rightarrow> Inr (if every then obj' else defaultValue))"

text \<open>
  The chain of property reads \<^verbatim>\<open>obj[s1][s2]...[sn]\<close> that a dotted path stands for,
  with no test in between; what \<open>get\<close> returns is stated against it.
\<close>

fun read_path :: "host \<Rightarrow> jsval \<Rightarrow> string list \<Rightarrow> js_error + jsval" where
  "read_path h obj [] = Inr obj"
| "read_path h obj (step # rest) =
     (case get_prop h obj step of Inl e \<Rightarrow> Inl e | Inr v \<Rightarrow> read_path h v rest)"

definition path_steps :: "string \<Rightarrow> string list" where
  "path_steps path = filter (\<lambda>step. step \<noteq> []) (split_dot path)"

text \<open>
  A host with nothing inherited and no conversion, to evaluate the model on concrete
  configurations.
\<close>

definition plain_host :: host where
  "plain_host = \<lparr> inherited = (\<lambda>v k. JUndefined),
                   to_number = (\<lambda>v. None),
                   to_string = (\<lambda>v. ''[object Object]''),
                   json_stringify = (\<lambda>v. JStr ''{}''),
                   call_method = (\<lambda>v k args. Inl (TypeError ''not a function'')),
                   semver_satisfies = (\<lambda>v r. True),
                   chalk_red = (\<lambda>s. s) \<rparr>"

section \<open>The constructor: the activation gate\<close>

text \<open>
  \<^verbatim>\<open>serverlessCommand.includes('package')\<close>: the built-in search of an array or of a
  string; on any other value, or on an array that carries a property of that name, the
  call of whatever \<^verbatim>\<open>includes\<close> is there.
\<close>

fun is_substring :: "string \<Rightarrow> string \<Rightarrow> bool" where
  "is_substring p [] = (p = [])"
| "is_substring p (c # cs) = (take (length p) (c # cs) = p \<or> is_substring p cs)"

fun includes_call :: "host \<Rightarrow> jsval \<Rightarrow> string \<Rightarrow> js_error + jsval" where
  "includes_call h JUndefined s = Inl (TypeError ''Cannot read properties of undefined'')"
| "includes_call h JNull s = Inl (TypeError ''Cannot read properties of null'')"
| "includes_call h (JArr xs ps) s =
     (if map_of ps ''includes'' = None then Inr (JBool (JStr s \<in> set xs))
      else call_method h (JArr xs ps) ''includes'' [JStr s])"
| "includes_call h (JStr t) s = Inr (JBool (is_substring s t))"
| "includes_call h v s = call_method h v ''includes'' [JStr s]"

datatype handler = ApplyDeploymentBucket

text \<open>
  The fields of the plugin object that the code reads again later. The provider object
  \<^verbatim>\<open>serverless.providers.aws\<close> is not a field: what it does is the parameter of the
  reconciliation below.
\<close>

record plugin =
  deploymentBucket :: jsval
  config :: jsval
  hooks :: "(string \<times> handler) list"

definition hook_name :: string where
  "hook_name = ''before:aws:common:validate:validate''"

text \<open>
  The constructor, lines 11 to 38. The three assignments to \<^verbatim>\<open>this.config\<close> write
  \<open>versioning\<close>, \<open>accelerate\<close> and \<open>policy\<close>; nothing reads these three names through
  another reference to the same object, so the write is modelled on the value of
  \<open>config\<close> alone.
\<close>

definition constructor :: "host \<Rightarrow> jsval \<Rightarrow> js_error + plugin" where
  "constructor h serverless =
     bindE (get_prop h serverless ''providers'') (\<lambda>providers.
     bindE (get_prop h providers ''aws'') (\<lambda>provider.
     bindE (get_prop h serverless ''version'') (\<lambda>version.
     let configPath = (if semver_satisfies h version ''>=2.10.0''
                       then ''provider.deploymentBucket''
                       else ''provider.deploymentBucketObject'') in
     bindE (get_prop h serverless ''service'') (\<lambda>service.
     bindE (get h service configPath (JObj [])) (\<lambda>deploymentBucket.
     bindE (get h service ''custom.deploymentBucket'' (JObj [])) (\<lambda>config.
     bindE (get_prop h config ''enabled'') (\<lambda>enabled.
     if enabled \<noteq> JUndefined \<and> enabled = JBool False then
       Inr \<lparr> deploymentBucket = deploymentBucket, config = config, hooks = [] \<rparr>
     else
       bindE (get_prop h deploymentBucket ''name'') (\<lambda>name.
       if truthy name then
         bindE (get h config ''versioning'' (JBool False)) (\<lambda>versioning.
         bindE (set_prop config ''versioning'' versioning) (\<lambda>config1.
         bindE (get h config1 ''accelerate'' (JBool False)) (\<lambda>accelerate.
         bindE (set_prop config1 ''accelerate'' accelerate) (\<lambda>config2.
         bindE (get h config2 ''policy'' JUndefined) (\<lambda>policy.
         bindE (set_prop config2 ''policy'' policy) (\<lambda>config3.
         bindE (get h serverless ''processedInput.commands'' (JArr [] [])) (\<lambda>serverlessCommand.
         bindE (includes_call h serverlessCommand ''package'') (\<lambda>included.
         Inr \<lparr> deploymentBucket = deploymentBucket, config = config3,
               hooks = (if \<not> truthy included then [(hook_name, ApplyDeploymentBucket)]
                        else []) \<rparr>))))))))
       else
         Inr \<lparr> deploymentBucket = deploymentBucket, config = config, hooks = [] \<rparr>))))))))"

text \<open>
  What the gate decides on, read off the host tool's object the way the constructor
  reads it: the enable flag, the bucket name and the command list.
\<close>

definition enabled_flag :: "host \<Rightarrow> jsval \<Rightarrow> js_error + jsval" where
  "enabled_flag h serverless =
     bindE (get_prop h serverless ''service'') (\<lambda>service.
     bindE (get h service ''custom.deploymentBucket'' (JObj [])) (\<lambda>config.
     get_prop h config ''enabled''))"

definition bucket_name :: "host \<Rightarrow> jsval \<Rightarrow> js_error + jsval" where
  "bucket_name h serverless =
     bindE (get_prop h serverless ''version'') (\<lambda>version.
     bindE (get_prop h serverless ''service'') (\<lambda>service.
     bindE (get h service (if semver_satisfies h version ''>=2.10.0''
                           then ''provider.deploymentBucket''
                           else ''provider.deploymentBucketObject'') (JObj [])) (\<lambda>deploymentBucket.
     get_prop h deploymentBucket ''name'')))"

definition includes_package :: "host \<Rightarrow> jsval \<Rightarrow> js_error + jsval" where
  "includes_package h serverless =
     bindE (get h serverless ''processedInput.commands'' (JArr [] [])) (\<lambda>serverlessCommand.
     includes_call h serverlessCommand ''package'')"

definition gate_open :: "host \<Rightarrow> jsval \<Rightarrow> bool" where
  "gate_open h serverless =
     (enabled_flag h serverless \<noteq> Inr (JBool False) \<and>
      (case bucket_name h serverless of Inl e \<Rightarrow> False | Inr name \<Rightarrow> truthy name) \<and>
      (case includes_package h serverless of Inl e \<Rightarrow> False | Inr included \<Rightarrow> \<not> truthy included))"

section \<open>Effects: the provider, the log and exceptions\<close>

text \<open>
  The provider's answer to a query carries the one field the code reads,
  \<^verbatim>\<open>response.Status\<close>, which the provider's interface types as an optional string.
\<close>

datatype s3_response = Response (Status: "string option")

text \<open>
  The cloud provider is a parameter: \<^verbatim>\<open>provider.request(service, operation, params)\<close>
  and the client's \<^verbatim>\<open>waitFor(state, params).promise()\<close> (with the construction of
  that client, which stands in the same \<^verbatim>\<open>try\<close>), each a function of the remote state
  \<open>'w\<close> that answers or rejects and leaves a new remote state.
\<close>

record 'w provider =
  request :: "string \<Rightarrow> string \<Rightarrow> jsval \<Rightarrow> 'w \<Rightarrow> (js_error + s3_response) \<times> 'w"
  sdk_waitFor :: "string \<Rightarrow> jsval \<Rightarrow> 'w \<Rightarrow> (js_error + unit) \<times> 'w"

text \<open>
  What a run does to the outside, in order: provider calls with their outcome, lines
  given to \<^verbatim>\<open>serverless.cli.log\<close> and to \<^verbatim>\<open>console.error\<close>.
\<close>

datatype event =
    Request string string jsval "js_error + s3_response"
  | WaitFor string jsval "js_error + unit"
  | CliLog string
  | ConsoleError string

text \<open>
  An \<^verbatim>\<open>async\<close> function body: from a remote state to the value it resolves to or the
  exception it rejects with, the events it caused, and the remote state it leaves.
\<close>

type_synonym ('w, 'a) action = "'w \<Rightarrow> (js_error + 'a) \<times> event list \<times> 'w"

definition returnA :: "'a \<Rightarrow> ('w, 'a) action" where
  "returnA x = (\<lambda>w. (Inr x, [], w))"

definition liftE :: "js_error + 'a \<Rightarrow> ('w, 'a) action" where
  "liftE r = (\<lambda>w. (r, [], w))"

definition bindA :: "('w, 'a) action \<Rightarrow> ('a \<Rightarrow> ('w, 'b) action) \<Rightarrow> ('w, 'b) action" where
  "bindA a f = (\<lambda>w. case a w of
       (Inl e, evs, w') \<Rightarrow> (Inl e, evs, w')
     | (Inr x, evs, w') \<Rightarrow> (case f x w' of (r, evs', w'') \<Rightarrow> (r, evs @ evs', w'')))"

definition try_catch :: "('w, 'a) action \<Rightarrow> (js_error \<Rightarrow> ('w, 'a) action) \<Rightarrow> ('w, 'a) action" where
  "try_catch a handler = (\<lambda>w. case a w of
       (Inl e, evs, w') \<Rightarrow> (case handler e w' of (r, evs', w'') \<Rightarrow> (r, evs @ evs', w''))
     | (Inr x, evs, w') \<Rightarrow> (Inr x, evs, w'))"

definition cli_log :: "string \<Rightarrow> ('w, unit) action" where
  "cli_log msg = (\<lambda>w. (Inr (), [CliLog msg], w))"

definition console_error :: "string \<Rightarrow> ('w, unit) action" where
  "console_error msg = (\<lambda>w. (Inr (), [ConsoleError msg], w))"

definition provider_request ::
  "'w provider \<Rightarrow> string \<Rightarrow> string \<Rightarrow> jsval \<Rightarrow> ('w, s3_response) action" where
  "provider_request P service operation params =
     (\<lambda>w. case request P service operation params w of
             (r, w') \<Rightarrow> (r, [Request service operation params r], w'))"

definition provider_waitFor :: "'w provider \<Rightarrow> string \<Rightarrow> jsval \<Rightarrow> ('w, unit) action" where
  "provider_waitFor P state params =
     (\<lambda>w. case sdk_waitFor P state params w of
             (r, w') \<Rightarrow> (r, [WaitFor state params r], w'))"

text \<open>A template literal prints a string as it is and anything else as the host converts it.\<close>

fun template :: "host \<Rightarrow> jsval \<Rightarrow> string" where
  "template h (JStr s) = s"
| "template h v = to_string h v"

text \<open>
  \<^verbatim>\<open>b != v\<close> for a boolean \<open>b\<close>: the boolean becomes 1 or 0 and is compared as a number;
  \<^verbatim>\<open>undefined\<close>, \<^verbatim>\<open>null\<close> and \<^verbatim>\<open>NaN\<close> equal no boolean.
\<close>

fun loose_eq_bool :: "host \<Rightarrow> bool \<Rightarrow> jsval \<Rightarrow> bool" where
  "loose_eq_bool h b (JBool c) = (b = c)"
| "loose_eq_bool h b (JNum n) = (n = (if b then 1 else 0))"
| "loose_eq_bool h b JNaN = False"
| "loose_eq_bool h b JUndefined = False"
| "loose_eq_bool h b JNull = False"
| "loose_eq_bool h b v = (to_number h v = Some (if b then 1 else 0))"

section \<open>The readers, the mutators and the wait helper\<close>

definition bucketExists :: "'w provider \<Rightarrow> jsval \<Rightarrow> ('w, bool) action" where
  "bucketExists P name =
     try_catch
       (bindA (provider_request P ''S3'' ''headBucket'' (JObj [(''Bucket'', name)]))
          (\<lambda>response. returnA True))
       (\<lambda>e. returnA False)"

definition waitFor :: "'w provider \<Rightarrow> jsval \<Rightarrow> string \<Rightarrow> ('w, bool) action" where
  "waitFor P name state =
     try_catch
       (bindA (provider_waitFor P state (JObj [(''Bucket'', name)]))
          (\<lambda>u. returnA True))
       (\<lambda>e. bindA (cli_log (''Unable to wait for '' @ [CHR 0x27] @ state @ [CHR 0x27]
                               @ '' - '' @ message e))
          (\<lambda>u. returnA False))"

definition createBucket :: "'w provider \<Rightarrow> jsval \<Rightarrow> ('w, s3_response) action" where
  "createBucket P name =
     provider_request P ''S3'' ''createBucket''
       (JObj [(''Bucket'', name), (''ACL'', JStr ''private'')])"

definition hasBucketEncryption :: "'w provider \<Rightarrow> jsval \<Rightarrow> ('w, bool) action" where
  "hasBucketEncryption P name =
     try_catch
       (bindA (provider_request P ''S3'' ''getBucketEncryption'' (JObj [(''Bucket'', name)]))
          (\<lambda>response. returnA True))
       (\<lambda>e. returnA False)"

definition putBucketEncryption ::
  "'w provider \<Rightarrow> jsval \<Rightarrow> jsval \<Rightarrow> jsval \<Rightarrow> ('w, s3_response) action" where
  "putBucketEncryption P name sseAlgorithm kmsMasterKeyId =
     provider_request P ''S3'' ''putBucketEncryption''
       (JObj [(''Bucket'', name),
              (''ServerSideEncryptionConfiguration'',
               JObj [(''Rules'',
                      JArr [JObj [(''ApplyServerSideEncryptionByDefault'',
                                   JObj [(''SSEAlgorithm'', sseAlgorithm),
                                         (''KMSMasterKeyID'', kmsMasterKeyId)])]] [])])])"

text \<open>\<^verbatim>\<open>response.Status && response.Status == 'Enabled'\<close> on the optional string.\<close>

definition status_enabled :: "s3_response \<Rightarrow> bool" where
  "status_enabled response =
     (case Status response of None \<Rightarrow> False | Some s \<Rightarrow> s \<noteq> [] \<and> s = ''Enabled'')"

definition hasBucketVersioning :: "'w provider \<Rightarrow> jsval \<Rightarrow> ('w, bool) action" where
  "hasBucketVersioning P name =
     try_catch
       (bindA (provider_request P ''S3'' ''getBucketVersioning'' (JObj [(''Bucket'', name)]))
          (\<lambda>response. if status_enabled response then returnA True else returnA False))
       (\<lambda>e. returnA False)"

definition putBucketVersioning :: "'w provider \<Rightarrow> jsval \<Rightarrow> jsval \<Rightarrow> ('w, s3_response) action" where
  "putBucketVersioning P name status =
     provider_request P ''S3'' ''putBucketVersioning''
       (JObj [(''Bucket'', name),
              (''VersioningConfiguration'',
               JObj [(''Status'', JStr (if truthy status then ''Enabled'' else ''Suspended''))])])"

definition hasBucketAcceleration :: "'w provider \<Rightarrow> jsval \<Rightarrow> ('w, bool) action" where
  "hasBucketAcceleration P name =
     try_catch
       (bindA (provider_request P ''S3'' ''getBucketAccelerateConfiguration''
                 (JObj [(''Bucket'', name)]))
          (\<lambda>response. if status_enabled response then returnA True else returnA False))
       (\<lambda>e. returnA False)"

definition putBucketAcceleration :: "'w provider \<Rightarrow> jsval \<Rightarrow> jsval \<Rightarrow> ('w, s3_response) action" where
  "putBucketAcceleration P name status =
     provider_request P ''S3'' ''putBucketAccelerateConfiguration''
       (JObj [(''Bucket'', name),
              (''AccelerateConfiguration'',
               JObj [(''Status'', JStr (if truthy status then ''Enabled'' else ''Suspended''))])])"

definition putBucketPolicy :: "host \<Rightarrow> 'w provider \<Rightarrow> jsval \<Rightarrow> jsval \<Rightarrow> ('w, s3_response) action" where
  "putBucketPolicy h P name policy =
     provider_request P ''S3'' ''putBucketPolicy''
       (JObj [(''Bucket'', name), (''Policy'', json_stringify h policy)])"

section \<open>The reconciler \<^verbatim>\<open>applyDeploymentBucket\<close>\<close>

text \<open>
  The body of the \<^verbatim>\<open>try\<close> block is five statements in a row; each is a definition
  here, named after the facet it drives, and \<open>applyDeploymentBucket_try\<close> runs them in
  the order of the source. A field of \<^verbatim>\<open>this\<close> that a statement reads several times
  is read once where the statement first reads it: the run does not write these fields.
\<close>

definition applyDeploymentBucket_existence :: "host \<Rightarrow> 'w provider \<Rightarrow> plugin \<Rightarrow> ('w, unit) action" where
  "applyDeploymentBucket_existence h P this =
     bindA (liftE (get_prop h (deploymentBucket this) ''name'')) (\<lambda>name.
     bindA (bucketExists P name) (\<lambda>exists.
     if exists then
       cli_log (''Using deployment bucket '' @ [CHR 0x27] @ template h name @ [CHR 0x27])
     else
       bindA (cli_log (''Creating deployment bucket '' @ [CHR 0x27] @ template h name
                        @ [CHR 0x27] @ ''...'')) (\<lambda>u.
       bindA (createBucket P name) (\<lambda>response.
       bindA (waitFor P name ''bucketExists'') (\<lambda>waited.
       returnA ())))))"

definition applyDeploymentBucket_encryption :: "host \<Rightarrow> 'w provider \<Rightarrow> plugin \<Rightarrow> ('w, unit) action" where
  "applyDeploymentBucket_encryption h P this =
     bindA (liftE (get_prop h (deploymentBucket this) ''serverSideEncryption'')) (\<lambda>sse.
     if truthy sse then
       bindA (liftE (get_prop h (deploymentBucket this) ''name'')) (\<lambda>name.
       bindA (hasBucketEncryption P name) (\<lambda>has.
       if \<not> has then
         bindA (putBucketEncryption P name sse JUndefined) (\<lambda>response.
         cli_log (''Applied SSE ('' @ template h sse @ '') to deployment bucket''))
       else returnA ()))
     else returnA ())"

definition applyDeploymentBucket_versioning :: "host \<Rightarrow> 'w provider \<Rightarrow> plugin \<Rightarrow> ('w, unit) action" where
  "applyDeploymentBucket_versioning h P this =
     bindA (liftE (get_prop h (deploymentBucket this) ''name'')) (\<lambda>name.
     bindA (hasBucketVersioning P name) (\<lambda>has.
     bindA (liftE (get_prop h (config this) ''versioning'')) (\<lambda>versioning.
     if \<not> loose_eq_bool h has versioning then
       bindA (putBucketVersioning P name versioning) (\<lambda>response.
       if truthy versioning then cli_log ''Enabled versioning on deployment bucket''
       else cli_log ''Suspended versioning on deployment bucket'')
     else returnA ())))"

definition applyDeploymentBucket_acceleration :: "host \<Rightarrow> 'w provider \<Rightarrow> plugin \<Rightarrow> ('w, unit) action" where
  "applyDeploymentBucket_acceleration h P this =
     bindA (liftE (get_prop h (deploymentBucket this) ''name'')) (\<lambda>name.
     bindA (hasBucketAcceleration P name) (\<lambda>has.
     bindA (liftE (get_prop h (config this) ''accelerate'')) (\<lambda>accelerate.
     if \<not> loose_eq_bool h has accelerate then
       bindA (putBucketAcceleration P name accelerate) (\<lambda>response.
       if truthy accelerate then cli_log ''Enabled acceleration on deployment bucket''
       else cli_log ''Suspended acceleration on deployment bucket'')
     else returnA ())))"

definition applyDeploymentBucket_policy :: "host \<Rightarrow> 'w provider \<Rightarrow> plugin \<Rightarrow> ('w, unit) action" where
  "applyDeploymentBucket_policy h P this =
     bindA (liftE (get_prop h (config this) ''policy'')) (\<lambda>policy.
     if truthy policy then
       bindA (liftE (get_prop h (deploymentBucket this) ''name'')) (\<lambda>name.
       bindA (putBucketPolicy h P name policy) (\<lambda>response.
       cli_log ''Applied deployment bucket policy''))
     else returnA ())"

definition applyDeploymentBucket_try :: "host \<Rightarrow> 'w provider \<Rightarrow> plugin \<Rightarrow> ('w, unit) action" where
  "applyDeploymentBucket_try h P this =
     bindA (applyDeploymentBucket_existence h P this) (\<lambda>u.
     bindA (applyDeploymentBucket_encryption h P this) (\<lambda>u.
     bindA (applyDeploymentBucket_versioning h P this) (\<lambda>u.
     bindA (applyDeploymentBucket_acceleration h P this) (\<lambda>u.
     applyDeploymentBucket_policy h P this))))"

definition error_block :: "host \<Rightarrow> js_error \<Rightarrow> string" where
  "error_block h e =
     chalk_red h ([CHR 0x0A] @ ''-------- Deployment Bucket Error --------'' @ [CHR 0x0A]
                  @ message e)"

definition applyDeploymentBucket :: "host \<Rightarrow> 'w provider \<Rightarrow> plugin \<Rightarrow> ('w, unit) action" where
  "applyDeploymentBucket h P this =
     try_catch (applyDeploymentBucket_try h P this) (\<lambda>e. console_error (error_block h e))"

section \<open>Observing a run\<close>

definition outcome :: "('w, 'a) action \<Rightarrow> 'w \<Rightarrow> js_error + 'a" where
  "outcome a w = fst (a w)"

definition emitted :: "('w, 'a) action \<Rightarrow> 'w \<Rightarrow> event list" where
  "emitted a w = fst (snd (a w))"

definition remote_after :: "('w, 'a) action \<Rightarrow> 'w \<Rightarrow> 'w" where
  "remote_after a w = snd (snd (a w))"

text \<open>The provider calls among the events, by operation name and in order.\<close>

fun operation_of :: "event \<Rightarrow> string option" where
  "operation_of (Request service operation params r) = Some operation"
| "operation_of (WaitFor state params r) = Some ''waitFor''"
| "operation_of (CliLog msg) = None"
| "operation_of (ConsoleError msg) = None"

definition operations :: "event list \<Rightarrow> string list" where
  "operations evs = List.map_filter operation_of evs"

definition requests_of :: "string \<Rightarrow> event list \<Rightarrow> event list" where
  "requests_of operation evs = filter (\<lambda>ev. operation_of ev = Some operation) evs"

fun is_console_error :: "event \<Rightarrow> bool" where
  "is_console_error (ConsoleError msg) = True"
| "is_console_error ev = False"

definition error_reports :: "event list \<Rightarrow> event list" where
  "error_reports evs = filter is_console_error evs"

text \<open>What a reader answers on an outcome of its query.\<close>

fun answered :: "js_error + s3_response \<Rightarrow> bool" where
  "answered (Inl e) = False"
| "answered (Inr response) = True"

fun answered_enabled :: "js_error + s3_response \<Rightarrow> bool" where
  "answered_enabled (Inl e) = False"
| "answered_enabled (Inr response) = (Status response = Some ''Enabled'')"

definition bucket_params :: "jsval \<Rightarrow> jsval" where
  "bucket_params name = JObj [(''Bucket'', name)]"

definition status_params :: "jsval \<Rightarrow> string \<Rightarrow> bool \<Rightarrow> jsval" where
  "status_params name section enabled =
     JObj [(''Bucket'', name),
           (section, JObj [(''Status'', JStr (if enabled then ''Enabled'' else ''Suspended''))])]"

section \<open>What convergence assumes of the provider\<close>

text \<open>
  Whether a second run finds the bucket as the first one left it is decided by the
  provider, not by the plugin. Convergence is stated for a provider whose
  answer to the versioning query is changed, among the calls the plugin makes, by
  \<^verbatim>\<open>putBucketVersioning\<close> alone, and is the status just written after a write that
  succeeded; and the same for acceleration.
\<close>

definition plugin_operations :: "string list" where
  "plugin_operations =
     [''headBucket'', ''createBucket'', ''getBucketEncryption'', ''putBucketEncryption'',
      ''getBucketVersioning'', ''putBucketVersioning'',
      ''getBucketAccelerateConfiguration'', ''putBucketAccelerateConfiguration'',
      ''putBucketPolicy'']"




section \<open>A provider to run the reconciler against\<close>

text \<open>
  An in-memory bucket store, with a list of operations that it refuses. It stands for
  the cloud provider wherever a theorem is exercised on a concrete run.
\<close>

record bucket =
  b_encryption :: "jsval option"
  b_versioning :: "string option"
  b_acceleration :: "string option"
  b_policy :: "jsval option"

type_synonym store = "(jsval \<times> bucket) list"

definition new_bucket :: bucket where
  "new_bucket = \<lparr> b_encryption = None, b_versioning = None, b_acceleration = None,
                   b_policy = None \<rparr>"

fun param :: "jsval \<Rightarrow> string \<Rightarrow> jsval option" where
  "param (JObj ps) k = map_of ps k"
| "param v k = None"

definition status_param :: "jsval \<Rightarrow> string \<Rightarrow> string option" where
  "status_param params section =
     (case param params section of
        None \<Rightarrow> None
      | Some c \<Rightarrow> (case param c ''Status'' of Some (JStr s) \<Rightarrow> Some s | _ \<Rightarrow> None))"

text \<open>A request on a bucket that exists: the answer, and the bucket as the request leaves it.\<close>

definition bucket_request :: "string \<Rightarrow> jsval \<Rightarrow> bucket \<Rightarrow> js_error + (s3_response \<times> bucket)" where
  "bucket_request operation params b =
     (if operation = ''headBucket'' then Inr (Response None, b)
      else if operation = ''getBucketEncryption'' then
        (case b_encryption b of
           None \<Rightarrow> Inl (ProviderError ''ServerSideEncryptionConfigurationNotFoundError'')
         | Some c \<Rightarrow> Inr (Response None, b))
      else if operation = ''putBucketEncryption'' then
        Inr (Response None, b\<lparr>b_encryption := param params ''ServerSideEncryptionConfiguration''\<rparr>)
      else if operation = ''getBucketVersioning'' then Inr (Response (b_versioning b), b)
      else if operation = ''putBucketVersioning'' then
        (case status_param params ''VersioningConfiguration'' of
           None \<Rightarrow> Inl (ProviderError ''MalformedXML'')
         | Some s \<Rightarrow> Inr (Response None, b\<lparr>b_versioning := Some s\<rparr>))
      else if operation = ''getBucketAccelerateConfiguration'' then
        Inr (Response (b_acceleration b), b)
      else if operation = ''putBucketAccelerateConfiguration'' then
        (case status_param params ''AccelerateConfiguration'' of
           None \<Rightarrow> Inl (ProviderError ''MalformedXML'')
         | Some s \<Rightarrow> Inr (Response None, b\<lparr>b_acceleration := Some s\<rparr>))
      else if operation = ''putBucketPolicy'' then
        Inr (Response None, b\<lparr>b_policy := param params ''Policy''\<rparr>)
      else Inl (ProviderError ''UnknownOperation''))"

definition store_request ::
  "string list \<Rightarrow> string \<Rightarrow> string \<Rightarrow> jsval \<Rightarrow> store \<Rightarrow> (js_error + s3_response) \<times> store" where
  "store_request refused service operation params w =
     (if operation \<in> set refused then (Inl (ProviderError ''AccessDenied''), w)
      else case param params ''Bucket'' of
        None \<Rightarrow> (Inl (ProviderError ''MissingRequiredParameter''), w)
      | Some name \<Rightarrow>
         (case map_of w name of
            None \<Rightarrow>
              if operation = ''createBucket''
              then (Inr (Response None), w @ [(name, new_bucket)])
              else (Inl (ProviderError ''NoSuchBucket''), w)
          | Some b \<Rightarrow>
              if operation = ''createBucket''
              then (Inl (ProviderError ''BucketAlreadyOwnedByYou''), w)
              else (case bucket_request operation params b of
                      Inl e \<Rightarrow> (Inl e, w)
                    | Inr (response, b') \<Rightarrow> (Inr response, AList.update name b' w))))"

definition store_waitFor ::
  "string list \<Rightarrow> string \<Rightarrow> jsval \<Rightarrow> store \<Rightarrow> (js_error + unit) \<times> store" where
  "store_waitFor refused state params w =
     (if ''waitFor'' \<in> set refused then (Inl (ProviderError ''Resource is not in the state''), w)
      else case param params ''Bucket'' of
        None \<Rightarrow> (Inl (ProviderError ''MissingRequiredParameter''), w)
      | Some name \<Rightarrow>
          (if map_of w name = None then (Inl (ProviderError ''Resource is not in the state''), w)
           else (Inr (), w)))"

definition store_provider :: "string list \<Rightarrow> store provider" where
  "store_provider refused =
     \<lparr> request = store_request refused, sdk_waitFor = store_waitFor refused \<rparr>"

section \<open>The remote state between the steps, and example configurations\<close>

definition create_params :: "jsval \<Rightarrow> jsval" where
  "create_params name = JObj [(''Bucket'', name), (''ACL'', JStr ''private'')]"

definition encryption_params :: "jsval \<Rightarrow> jsval \<Rightarrow> jsval" where
  "encryption_params name sseAlgorithm =
     JObj [(''Bucket'', name),
           (''ServerSideEncryptionConfiguration'',
            JObj [(''Rules'',
                   JArr [JObj [(''ApplyServerSideEncryptionByDefault'',
                                JObj [(''SSEAlgorithm'', sseAlgorithm),
                                      (''KMSMasterKeyID'', JUndefined)])]] [])])]"

definition policy_params :: "host \<Rightarrow> jsval \<Rightarrow> jsval \<Rightarrow> jsval" where
  "policy_params h name policy = JObj [(''Bucket'', name), (''Policy'', json_stringify h policy)]"

definition after_existence :: "host \<Rightarrow> 'w provider \<Rightarrow> plugin \<Rightarrow> 'w \<Rightarrow> 'w" where
  "after_existence h P this w = remote_after (applyDeploymentBucket_existence h P this) w"

definition after_encryption :: "host \<Rightarrow> 'w provider \<Rightarrow> plugin \<Rightarrow> 'w \<Rightarrow> 'w" where
  "after_encryption h P this w =
     remote_after (applyDeploymentBucket_encryption h P this) (after_existence h P this w)"

definition after_versioning :: "host \<Rightarrow> 'w provider \<Rightarrow> plugin \<Rightarrow> 'w \<Rightarrow> 'w" where
  "after_versioning h P this w =
     remote_after (applyDeploymentBucket_versioning h P this) (after_encryption h P this w)"

definition after_acceleration :: "host \<Rightarrow> 'w provider \<Rightarrow> plugin \<Rightarrow> 'w \<Rightarrow> 'w" where
  "after_acceleration h P this w =
     remote_after (applyDeploymentBucket_acceleration h P this) (after_versioning h P this w)"

text \<open>The four statements that follow the existence statement, in a row.\<close>

definition remaining_facets :: "host \<Rightarrow> 'w provider \<Rightarrow> plugin \<Rightarrow> ('w, unit) action" where
  "remaining_facets h P this =
     bindA (applyDeploymentBucket_encryption h P this) (\<lambda>u.
     bindA (applyDeploymentBucket_versioning h P this) (\<lambda>u.
     bindA (applyDeploymentBucket_acceleration h P this) (\<lambda>u.
     applyDeploymentBucket_policy h P this)))"

text \<open>The run reaches its fifth statement: none of the four before it raised.\<close>

definition reaches_policy :: "host \<Rightarrow> 'w provider \<Rightarrow> plugin \<Rightarrow> 'w \<Rightarrow> bool" where
  "reaches_policy h P this w =
     (outcome (applyDeploymentBucket_existence h P this) w = Inr () \<and>
      outcome (applyDeploymentBucket_encryption h P this) (after_existence h P this w) = Inr () \<and>
      outcome (applyDeploymentBucket_versioning h P this) (after_encryption h P this w) = Inr () \<and>
      outcome (applyDeploymentBucket_acceleration h P this) (after_versioning h P this w) = Inr ())"

text \<open>
  The host tool's object for a configuration that names the bucket \<^verbatim>\<open>b2\<close> and nothing
  else, during a \<^verbatim>\<open>deploy\<close>, and plugin objects for three desired states.
\<close>

definition b2_serverless :: jsval where
  "b2_serverless =
     JObj [(''version'', JStr ''3.38.0''),
           (''providers'', JObj [(''aws'', JObj [])]),
           (''service'',
            JObj [(''provider'', JObj [(''deploymentBucket'', JObj [(''name'', JStr ''b2'')])])]),
           (''processedInput'', JObj [(''commands'', JArr [JStr ''deploy''] [])])]"

definition b2_plugin :: plugin where
  "b2_plugin =
     \<lparr> deploymentBucket = JObj [(''name'', JStr ''b2'')],
       config = JObj [(''versioning'', JBool False), (''accelerate'', JBool False),
                      (''policy'', JUndefined)],
       hooks = [(hook_name, ApplyDeploymentBucket)] \<rparr>"


definition b3_plugin :: plugin where
  "b3_plugin =
     \<lparr> deploymentBucket = JObj [(''name'', JStr ''b3''), (''serverSideEncryption'', JStr ''AES256'')],
       config = JObj [(''versioning'', JBool True), (''accelerate'', JBool False),
                      (''policy'', JObj [(''Version'', JStr ''2012-10-17'')])],
       hooks = [(hook_name, ApplyDeploymentBucket)] \<rparr>"

section \<open>Running an action\<close>

lemma outcome_returnA [simp]: "outcome (returnA x) w = Inr x"
  and emitted_returnA [simp]: "emitted (returnA x) w = []"
  and remote_returnA [simp]: "remote_after (returnA x) w = w"
  by (simp_all add: outcome_def emitted_def remote_after_def returnA_def)

lemma outcome_liftE [simp]: "outcome (liftE r) w = r"
  and emitted_liftE [simp]: "emitted (liftE r) w = []"
  and remote_liftE [simp]: "remote_after (liftE r) w = w"
  by (simp_all add: outcome_def emitted_def remote_after_def liftE_def)

lemma outcome_cli_log [simp]: "outcome (cli_log m) w = Inr ()"
  and emitted_cli_log [simp]: "emitted (cli_log m) w = [CliLog m]"
  and remote_cli_log [simp]: "remote_after (cli_log m) w = w"
  by (simp_all add: outcome_def emitted_def remote_after_def cli_log_def)

lemma outcome_console_error [simp]: "outcome (console_error m) w = Inr ()"
  and emitted_console_error [simp]: "emitted (console_error m) w = [ConsoleError m]"
  and remote_console_error [simp]: "remote_after (console_error m) w = w"
  by (simp_all add: outcome_def emitted_def remote_after_def console_error_def)

lemma outcome_bindA:
  "outcome (bindA a f) w =
     (case outcome a w of Inl e \<Rightarrow> Inl e | Inr x \<Rightarrow> outcome (f x) (remote_after a w))"
  by (simp add: outcome_def remote_after_def bindA_def split: prod.splits sum.splits)

lemma emitted_bindA:
  "emitted (bindA a f) w =
     (case outcome a w of Inl e \<Rightarrow> emitted a w
      | Inr x \<Rightarrow> emitted a w @ emitted (f x) (remote_after a w))"
  by (simp add: outcome_def emitted_def remote_after_def bindA_def split: prod.splits sum.splits)

lemma remote_bindA:
  "remote_after (bindA a f) w =
     (case outcome a w of Inl e \<Rightarrow> remote_after a w
      | Inr x \<Rightarrow> remote_after (f x) (remote_after a w))"
  by (simp add: outcome_def remote_after_def bindA_def split: prod.splits sum.splits)

lemma outcome_try_catch:
  "outcome (try_catch a g) w =
     (case outcome a w of Inl e \<Rightarrow> outcome (g e) (remote_after a w) | Inr x \<Rightarrow> Inr x)"
  by (simp add: outcome_def remote_after_def try_catch_def split: prod.splits sum.splits)

lemma emitted_try_catch:
  "emitted (try_catch a g) w =
     (case outcome a w of Inl e \<Rightarrow> emitted a w @ emitted (g e) (remote_after a w)
      | Inr x \<Rightarrow> emitted a w)"
  by (simp add: outcome_def emitted_def remote_after_def try_catch_def split: prod.splits sum.splits)

lemma remote_try_catch:
  "remote_after (try_catch a g) w =
     (case outcome a w of Inl e \<Rightarrow> remote_after (g e) (remote_after a w)
      | Inr x \<Rightarrow> remote_after a w)"
  by (simp add: outcome_def remote_after_def try_catch_def split: prod.splits sum.splits)

lemma outcome_provider_request [simp]:
  "outcome (provider_request P s operation params) w = fst (request P s operation params w)"
  and emitted_provider_request [simp]:
  "emitted (provider_request P s operation params) w =
     [Request s operation params (fst (request P s operation params w))]"
  and remote_provider_request [simp]:
  "remote_after (provider_request P s operation params) w = snd (request P s operation params w)"
  by (simp_all add: outcome_def emitted_def remote_after_def provider_request_def split: prod.splits)

lemma outcome_provider_waitFor [simp]:
  "outcome (provider_waitFor P state params) w = fst (sdk_waitFor P state params w)"
  and emitted_provider_waitFor [simp]:
  "emitted (provider_waitFor P state params) w =
     [WaitFor state params (fst (sdk_waitFor P state params w))]"
  and remote_provider_waitFor [simp]:
  "remote_after (provider_waitFor P state params) w = snd (sdk_waitFor P state params w)"
  by (simp_all add: outcome_def emitted_def remote_after_def provider_waitFor_def split: prod.splits)

lemmas run_simps = outcome_bindA emitted_bindA remote_bindA outcome_try_catch emitted_try_catch
  remote_try_catch

lemma outcome_bucketExists:
  "outcome (bucketExists P name) w =
     Inr (answered (fst (request P ''S3'' ''headBucket'' (bucket_params name) w)))"
  by (simp add: bucketExists_def run_simps bucket_params_def split: sum.splits)

lemma emitted_bucketExists:
  "emitted (bucketExists P name) w =
     [Request ''S3'' ''headBucket'' (bucket_params name)
        (fst (request P ''S3'' ''headBucket'' (bucket_params name) w))]"
  by (simp add: bucketExists_def run_simps bucket_params_def split: sum.splits)

lemma remote_bucketExists:
  "remote_after (bucketExists P name) w =
     snd (request P ''S3'' ''headBucket'' (bucket_params name) w)"
  by (simp add: bucketExists_def run_simps bucket_params_def split: sum.splits)

lemma outcome_hasBucketEncryption:
  "outcome (hasBucketEncryption P name) w =
     Inr (answered (fst (request P ''S3'' ''getBucketEncryption'' (bucket_params name) w)))"
  by (simp add: hasBucketEncryption_def run_simps bucket_params_def split: sum.splits)

lemma emitted_hasBucketEncryption:
  "emitted (hasBucketEncryption P name) w =
     [Request ''S3'' ''getBucketEncryption'' (bucket_params name)
        (fst (request P ''S3'' ''getBucketEncryption'' (bucket_params name) w))]"
  by (simp add: hasBucketEncryption_def run_simps bucket_params_def split: sum.splits)

lemma remote_hasBucketEncryption:
  "remote_after (hasBucketEncryption P name) w =
     snd (request P ''S3'' ''getBucketEncryption'' (bucket_params name) w)"
  by (simp add: hasBucketEncryption_def run_simps bucket_params_def split: sum.splits)

lemma outcome_hasBucketVersioning:
  "outcome (hasBucketVersioning P name) w =
     Inr (answered_enabled (fst (request P ''S3'' ''getBucketVersioning'' (bucket_params name) w)))"
  by (auto simp add: hasBucketVersioning_def run_simps bucket_params_def status_enabled_def
      split: sum.splits option.splits)

lemma emitted_hasBucketVersioning:
  "emitted (hasBucketVersioning P name) w =
     [Request ''S3'' ''getBucketVersioning'' (bucket_params name)
        (fst (request P ''S3'' ''getBucketVersioning'' (bucket_params name) w))]"
  by (simp add: hasBucketVersioning_def run_simps bucket_params_def split: sum.splits)

lemma remote_hasBucketVersioning:
  "remote_after (hasBucketVersioning P name) w =
     snd (request P ''S3'' ''getBucketVersioning'' (bucket_params name) w)"
  by (simp add: hasBucketVersioning_def run_simps bucket_params_def split: sum.splits)

lemma outcome_hasBucketAcceleration:
  "outcome (hasBucketAcceleration P name) w =
     Inr (answered_enabled
            (fst (request P ''S3'' ''getBucketAccelerateConfiguration'' (bucket_params name) w)))"
  by (auto simp add: hasBucketAcceleration_def run_simps bucket_params_def status_enabled_def
      split: sum.splits option.splits)

lemma emitted_hasBucketAcceleration:
  "emitted (hasBucketAcceleration P name) w =
     [Request ''S3'' ''getBucketAccelerateConfiguration'' (bucket_params name)
        (fst (request P ''S3'' ''getBucketAccelerateConfiguration'' (bucket_params name) w))]"
  by (simp add: hasBucketAcceleration_def run_simps bucket_params_def split: sum.splits)

lemma remote_hasBucketAcceleration:
  "remote_after (hasBucketAcceleration P name) w =
     snd (request P ''S3'' ''getBucketAccelerateConfiguration'' (bucket_params name) w)"
  by (simp add: hasBucketAcceleration_def run_simps bucket_params_def split: sum.splits)

lemma operations_simps [simp]:
  "operations [] = []"
  "operations (Request s operation params r # evs) = operation # operations evs"
  "operations (WaitFor state params rw # evs) = ''waitFor'' # operations evs"
  "operations (CliLog m # evs) = operations evs"
  "operations (ConsoleError m # evs) = operations evs"
  "operations (xs @ ys) = operations xs @ operations ys"
  by (simp_all add: operations_def List.map_filter_def)

lemma error_reports_simps [simp]:
  "error_reports [] = []"
  "error_reports (Request s operation params r # evs) = error_reports evs"
  "error_reports (WaitFor state params rw # evs) = error_reports evs"
  "error_reports (CliLog m # evs) = error_reports evs"
  "error_reports (ConsoleError m # evs) = ConsoleError m # error_reports evs"
  "error_reports (xs @ ys) = error_reports xs @ error_reports ys"
  by (simp_all add: error_reports_def)

lemma outcome_waitFor: "outcome (waitFor P name state) w = Inr (case fst (sdk_waitFor P state (bucket_params name) w) of Inl e \<Rightarrow> False | Inr u \<Rightarrow> True)"
  by (simp add: waitFor_def run_simps bucket_params_def split: sum.splits)

lemma emitted_waitFor:
  "emitted (waitFor P name state) w =
     WaitFor state (bucket_params name) (fst (sdk_waitFor P state (bucket_params name) w)) #
     (case fst (sdk_waitFor P state (bucket_params name) w) of
        Inl e \<Rightarrow> [CliLog (''Unable to wait for '' @ [CHR 0x27] @ state @ [CHR 0x27] @ '' - '' @ message e)]
      | Inr u \<Rightarrow> [])"
  by (simp add: waitFor_def run_simps bucket_params_def split: sum.splits)

lemma remote_waitFor:
  "remote_after (waitFor P name state) w = snd (sdk_waitFor P state (bucket_params name) w)"
  by (simp add: waitFor_def run_simps bucket_params_def split: sum.splits)

section \<open>The five statements of the reconciler\<close>

lemmas step_defs = applyDeploymentBucket_existence_def applyDeploymentBucket_encryption_def
  applyDeploymentBucket_versioning_def applyDeploymentBucket_acceleration_def
  applyDeploymentBucket_policy_def

lemmas call_simps = outcome_bucketExists emitted_bucketExists remote_bucketExists
  outcome_hasBucketEncryption emitted_hasBucketEncryption remote_hasBucketEncryption
  outcome_hasBucketVersioning emitted_hasBucketVersioning remote_hasBucketVersioning
  outcome_hasBucketAcceleration emitted_hasBucketAcceleration remote_hasBucketAcceleration
  outcome_waitFor emitted_waitFor remote_waitFor
  createBucket_def putBucketEncryption_def putBucketVersioning_def putBucketAcceleration_def
  putBucketPolicy_def

lemma existence_ops:
  "set (operations (emitted (applyDeploymentBucket_existence h P this) w))
     \<subseteq> {''headBucket'', ''createBucket'', ''waitFor''}"
  by (auto simp add: applyDeploymentBucket_existence_def run_simps call_simps
      split: sum.splits if_splits)

lemma encryption_ops:
  "set (operations (emitted (applyDeploymentBucket_encryption h P this) w))
     \<subseteq> {''getBucketEncryption'', ''putBucketEncryption''}"
  by (auto simp add: applyDeploymentBucket_encryption_def run_simps call_simps
      split: sum.splits if_splits)

lemma versioning_ops:
  "set (operations (emitted (applyDeploymentBucket_versioning h P this) w))
     \<subseteq> {''getBucketVersioning'', ''putBucketVersioning''}"
  by (auto simp add: applyDeploymentBucket_versioning_def run_simps call_simps
      split: sum.splits if_splits)

lemma acceleration_ops:
  "set (operations (emitted (applyDeploymentBucket_acceleration h P this) w))
     \<subseteq> {''getBucketAccelerateConfiguration'', ''putBucketAccelerateConfiguration''}"
  by (auto simp add: applyDeploymentBucket_acceleration_def run_simps call_simps
      split: sum.splits if_splits)

lemma policy_ops:
  "set (operations (emitted (applyDeploymentBucket_policy h P this) w)) \<subseteq> {''putBucketPolicy''}"
  by (auto simp add: applyDeploymentBucket_policy_def run_simps call_simps
      split: sum.splits if_splits)



lemma emitted_try:
  "emitted (applyDeploymentBucket_try h P this) w =
     emitted (applyDeploymentBucket_existence h P this) w @
     (case outcome (applyDeploymentBucket_existence h P this) w of Inl e \<Rightarrow> [] | Inr u \<Rightarrow>
      emitted (applyDeploymentBucket_encryption h P this) (after_existence h P this w) @
     (case outcome (applyDeploymentBucket_encryption h P this) (after_existence h P this w) of Inl e \<Rightarrow> [] | Inr u \<Rightarrow>
      emitted (applyDeploymentBucket_versioning h P this) (after_encryption h P this w) @
     (case outcome (applyDeploymentBucket_versioning h P this) (after_encryption h P this w) of Inl e \<Rightarrow> [] | Inr u \<Rightarrow>
      emitted (applyDeploymentBucket_acceleration h P this) (after_versioning h P this w) @
     (case outcome (applyDeploymentBucket_acceleration h P this) (after_versioning h P this w) of Inl e \<Rightarrow> [] | Inr u \<Rightarrow>
      emitted (applyDeploymentBucket_policy h P this) (after_acceleration h P this w)))))"
  by (simp add: applyDeploymentBucket_try_def run_simps after_existence_def after_encryption_def
      after_versioning_def after_acceleration_def split: sum.splits)




lemma emitted_run:
  "emitted (applyDeploymentBucket h P this) w =
     emitted (applyDeploymentBucket_try h P this) w @
     (case outcome (applyDeploymentBucket_try h P this) w of
        Inl e \<Rightarrow> [ConsoleError (error_block h e)] | Inr u \<Rightarrow> [])"
  by (simp add: applyDeploymentBucket_def emitted_try_catch split: sum.splits)



lemma run_operations:
  "operations (emitted (applyDeploymentBucket h P this) w) = operations (emitted (applyDeploymentBucket_try h P this) w)"
  by (simp add: emitted_run split: sum.splits)

lemma outcome_existence:
  assumes "get_prop h (deploymentBucket this) ''name'' = Inr name"
  shows "outcome (applyDeploymentBucket_existence h P this) w =
    (case fst (request P ''S3'' ''headBucket'' (bucket_params name) w) of
       Inr response \<Rightarrow> Inr ()
     | Inl e0 \<Rightarrow>
        (case fst (request P ''S3'' ''createBucket'' (create_params name)
                    (snd (request P ''S3'' ''headBucket'' (bucket_params name) w))) of
           Inl e \<Rightarrow> Inl e
         | Inr response \<Rightarrow> Inr ()))"
  using assms
  by (simp add: applyDeploymentBucket_existence_def run_simps call_simps create_params_def
      split: sum.splits)

lemma emitted_existence:
  assumes "get_prop h (deploymentBucket this) ''name'' = Inr name"
  shows "emitted (applyDeploymentBucket_existence h P this) w =
    Request ''S3'' ''headBucket'' (bucket_params name)
      (fst (request P ''S3'' ''headBucket'' (bucket_params name) w)) #
    (case fst (request P ''S3'' ''headBucket'' (bucket_params name) w) of
       Inr response \<Rightarrow>
         [CliLog (''Using deployment bucket '' @ [CHR 0x27] @ template h name @ [CHR 0x27])]
     | Inl e0 \<Rightarrow>
         CliLog (''Creating deployment bucket '' @ [CHR 0x27] @ template h name @ [CHR 0x27] @ ''...'') #
         Request ''S3'' ''createBucket'' (create_params name)
           (fst (request P ''S3'' ''createBucket'' (create_params name)
                  (snd (request P ''S3'' ''headBucket'' (bucket_params name) w)))) #
         (case fst (request P ''S3'' ''createBucket'' (create_params name)
                     (snd (request P ''S3'' ''headBucket'' (bucket_params name) w))) of
            Inl e \<Rightarrow> []
          | Inr response \<Rightarrow>
              emitted (waitFor P name ''bucketExists'')
                (snd (request P ''S3'' ''createBucket'' (create_params name)
                       (snd (request P ''S3'' ''headBucket'' (bucket_params name) w))))))"
  using assms
  by (simp add: applyDeploymentBucket_existence_def run_simps outcome_bucketExists
      remote_bucketExists emitted_bucketExists createBucket_def create_params_def outcome_waitFor
      split: sum.splits)


lemmas model_defs = applyDeploymentBucket_def applyDeploymentBucket_try_def step_defs
  bucketExists_def waitFor_def createBucket_def hasBucketEncryption_def putBucketEncryption_def
  hasBucketVersioning_def putBucketVersioning_def hasBucketAcceleration_def
  putBucketAcceleration_def putBucketPolicy_def provider_request_def provider_waitFor_def
  bindA_def try_catch_def returnA_def liftE_def cli_log_def console_error_def
  outcome_def emitted_def remote_after_def status_enabled_def error_block_def

lemmas store_defs = store_provider_def store_request_def bucket_request_def store_waitFor_def
  new_bucket_def
  status_param_def plain_host_def bucket_params_def create_params_def status_params_def

section \<open>The readers\<close>

text \<open>
  C6. For every bucket name, \<open>bucketExists\<close> and \<open>hasBucketEncryption\<close> resolve to a
  boolean and never raise: the boolean is \<open>True\<close> when the query is answered and \<open>False\<close>
  when it is rejected, whatever the rejection is, so that the caller cannot tell a facet
  that is not configured from a query that failed.
\<close>

theorem readers_fold_failure_into_false:
  "outcome (bucketExists P name) w
     = Inr (answered (fst (request P ''S3'' ''headBucket'' (bucket_params name) w)))
   \<and> outcome (hasBucketEncryption P name) w
     = Inr (answered (fst (request P ''S3'' ''getBucketEncryption'' (bucket_params name) w)))
   \<and> (\<forall>e. fst (request P ''S3'' ''headBucket'' (bucket_params name) w) = Inl e
          \<longrightarrow> outcome (bucketExists P name) w = Inr False)
   \<and> (\<forall>e. fst (request P ''S3'' ''getBucketEncryption'' (bucket_params name) w) = Inl e
          \<longrightarrow> outcome (hasBucketEncryption P name) w = Inr False)"
  by (simp add: outcome_bucketExists outcome_hasBucketEncryption)

theorem readers_fold_failure_into_false_witness:
  "fst (request (store_provider []) ''S3'' ''headBucket'' (bucket_params (JStr ''b1'')) [])
     = Inl (ProviderError ''NoSuchBucket'')
   \<and> outcome (bucketExists (store_provider []) (JStr ''b1'')) [] = Inr False
   \<and> fst (request (store_provider [''getBucketEncryption'']) ''S3'' ''getBucketEncryption''
            (bucket_params (JStr ''b1'')) [(JStr ''b1'', new_bucket)])
     = Inl (ProviderError ''AccessDenied'')
   \<and> outcome (hasBucketEncryption (store_provider [''getBucketEncryption'']) (JStr ''b1''))
        [(JStr ''b1'', new_bucket)] = Inr False"
proof -
  have absent:
    "fst (request (store_provider []) ''S3'' ''headBucket'' (bucket_params (JStr ''b1'')) [])
       = Inl (ProviderError ''NoSuchBucket'')"
    by (simp add: store_provider_def store_request_def bucket_request_def bucket_params_def)
  have denied:
    "fst (request (store_provider [''getBucketEncryption'']) ''S3'' ''getBucketEncryption''
            (bucket_params (JStr ''b1'')) [(JStr ''b1'', new_bucket)])
       = Inl (ProviderError ''AccessDenied'')"
    by (simp add: store_provider_def store_request_def bucket_request_def bucket_params_def)
  from absent
    readers_fold_failure_into_false [of "store_provider []" "JStr ''b1''" "[]"]
  have "outcome (bucketExists (store_provider []) (JStr ''b1'')) [] = Inr False"
    by blast
  moreover from denied
    readers_fold_failure_into_false
      [of "store_provider [''getBucketEncryption'']" "JStr ''b1''" "[(JStr ''b1'', new_bucket)]"]
  have "outcome (hasBucketEncryption (store_provider [''getBucketEncryption'']) (JStr ''b1''))
          [(JStr ''b1'', new_bucket)] = Inr False"
    by blast
  ultimately show ?thesis using absent denied by simp
qed

text \<open>
  C7. For every bucket name, \<open>hasBucketVersioning\<close> resolves to \<open>True\<close> if and only if the
  versioning query is answered and the answer's status is exactly \<^verbatim>\<open>Enabled\<close>; it
  resolves to \<open>False\<close> on the status \<^verbatim>\<open>Suspended\<close>, on an answer with no status and on
  a rejected query. \<open>hasBucketAcceleration\<close> does the same with the acceleration query.
\<close>

theorem status_readers_true_iff_enabled:
  "(outcome (hasBucketVersioning P name) w = Inr True \<longleftrightarrow>
      (\<exists>response. fst (request P ''S3'' ''getBucketVersioning'' (bucket_params name) w)
                    = Inr response \<and> Status response = Some ''Enabled''))
   \<and> (outcome (hasBucketVersioning P name) w = Inr True
        \<or> outcome (hasBucketVersioning P name) w = Inr False)
   \<and> (fst (request P ''S3'' ''getBucketVersioning'' (bucket_params name) w)
          = Inr (Response (Some ''Suspended''))
        \<longrightarrow> outcome (hasBucketVersioning P name) w = Inr False)
   \<and> (fst (request P ''S3'' ''getBucketVersioning'' (bucket_params name) w)
          = Inr (Response None)
        \<longrightarrow> outcome (hasBucketVersioning P name) w = Inr False)
   \<and> (\<forall>e. fst (request P ''S3'' ''getBucketVersioning'' (bucket_params name) w) = Inl e
        \<longrightarrow> outcome (hasBucketVersioning P name) w = Inr False)
   \<and> (outcome (hasBucketAcceleration P name) w = Inr True \<longleftrightarrow>
      (\<exists>response. fst (request P ''S3'' ''getBucketAccelerateConfiguration'' (bucket_params name) w)
                    = Inr response \<and> Status response = Some ''Enabled''))
   \<and> (outcome (hasBucketAcceleration P name) w = Inr True
        \<or> outcome (hasBucketAcceleration P name) w = Inr False)
   \<and> (fst (request P ''S3'' ''getBucketAccelerateConfiguration'' (bucket_params name) w)
          = Inr (Response (Some ''Suspended''))
        \<longrightarrow> outcome (hasBucketAcceleration P name) w = Inr False)
   \<and> (fst (request P ''S3'' ''getBucketAccelerateConfiguration'' (bucket_params name) w)
          = Inr (Response None)
        \<longrightarrow> outcome (hasBucketAcceleration P name) w = Inr False)
   \<and> (\<forall>e. fst (request P ''S3'' ''getBucketAccelerateConfiguration'' (bucket_params name) w) = Inl e
        \<longrightarrow> outcome (hasBucketAcceleration P name) w = Inr False)"
proof -
  have v: "outcome (hasBucketVersioning P name) w = Inr True \<longleftrightarrow>
      (\<exists>response. fst (request P ''S3'' ''getBucketVersioning'' (bucket_params name) w)
                    = Inr response \<and> Status response = Some ''Enabled'')"
    by (cases "fst (request P ''S3'' ''getBucketVersioning'' (bucket_params name) w)")
       (simp_all add: outcome_hasBucketVersioning)
  have a: "outcome (hasBucketAcceleration P name) w = Inr True \<longleftrightarrow>
      (\<exists>response. fst (request P ''S3'' ''getBucketAccelerateConfiguration'' (bucket_params name) w)
                    = Inr response \<and> Status response = Some ''Enabled'')"
    by (cases "fst (request P ''S3'' ''getBucketAccelerateConfiguration'' (bucket_params name) w)")
       (simp_all add: outcome_hasBucketAcceleration)
  have rest_v:
    "(outcome (hasBucketVersioning P name) w = Inr True
        \<or> outcome (hasBucketVersioning P name) w = Inr False)
     \<and> (fst (request P ''S3'' ''getBucketVersioning'' (bucket_params name) w)
          = Inr (Response (Some ''Suspended''))
        \<longrightarrow> outcome (hasBucketVersioning P name) w = Inr False)
     \<and> (fst (request P ''S3'' ''getBucketVersioning'' (bucket_params name) w)
          = Inr (Response None)
        \<longrightarrow> outcome (hasBucketVersioning P name) w = Inr False)
     \<and> (\<forall>e. fst (request P ''S3'' ''getBucketVersioning'' (bucket_params name) w) = Inl e
        \<longrightarrow> outcome (hasBucketVersioning P name) w = Inr False)"
    by (simp add: outcome_hasBucketVersioning)
  have rest_a:
    "(outcome (hasBucketAcceleration P name) w = Inr True
        \<or> outcome (hasBucketAcceleration P name) w = Inr False)
     \<and> (fst (request P ''S3'' ''getBucketAccelerateConfiguration'' (bucket_params name) w)
          = Inr (Response (Some ''Suspended''))
        \<longrightarrow> outcome (hasBucketAcceleration P name) w = Inr False)
     \<and> (fst (request P ''S3'' ''getBucketAccelerateConfiguration'' (bucket_params name) w)
          = Inr (Response None)
        \<longrightarrow> outcome (hasBucketAcceleration P name) w = Inr False)
     \<and> (\<forall>e. fst (request P ''S3'' ''getBucketAccelerateConfiguration'' (bucket_params name) w) = Inl e
        \<longrightarrow> outcome (hasBucketAcceleration P name) w = Inr False)"
    by (simp add: outcome_hasBucketAcceleration)
  from v a rest_v rest_a show ?thesis by blast
qed

theorem status_readers_true_iff_enabled_witness:
  "fst (request (store_provider []) ''S3'' ''getBucketVersioning'' (bucket_params (JStr ''b1''))
          [(JStr ''b1'', new_bucket\<lparr>b_versioning := Some ''Suspended''\<rparr>)])
     = Inr (Response (Some ''Suspended''))
   \<and> outcome (hasBucketVersioning (store_provider []) (JStr ''b1''))
        [(JStr ''b1'', new_bucket\<lparr>b_versioning := Some ''Suspended''\<rparr>)] = Inr False
   \<and> fst (request (store_provider []) ''S3'' ''getBucketAccelerateConfiguration''
            (bucket_params (JStr ''b1'')) [(JStr ''b1'', new_bucket)])
     = Inr (Response None)
   \<and> outcome (hasBucketAcceleration (store_provider []) (JStr ''b1''))
        [(JStr ''b1'', new_bucket)] = Inr False"
proof -
  let ?w = "[(JStr ''b1'', new_bucket\<lparr>b_versioning := Some ''Suspended''\<rparr>)]"
  let ?u = "[(JStr ''b1'', new_bucket)]"
  have suspended:
    "fst (request (store_provider []) ''S3'' ''getBucketVersioning'' (bucket_params (JStr ''b1'')) ?w)
       = Inr (Response (Some ''Suspended''))"
    by (simp add: store_provider_def store_request_def bucket_request_def bucket_params_def new_bucket_def)
  have unset:
    "fst (request (store_provider []) ''S3'' ''getBucketAccelerateConfiguration''
            (bucket_params (JStr ''b1'')) ?u) = Inr (Response None)"
    by (simp add: store_provider_def store_request_def bucket_request_def bucket_params_def new_bucket_def)
  from suspended status_readers_true_iff_enabled [of "store_provider []" "JStr ''b1''" ?w]
  have "outcome (hasBucketVersioning (store_provider []) (JStr ''b1'')) ?w = Inr False"
    by blast
  moreover from unset status_readers_true_iff_enabled [of "store_provider []" "JStr ''b1''" ?u]
  have "outcome (hasBucketAcceleration (store_provider []) (JStr ''b1'')) ?u = Inr False"
    by blast
  ultimately show ?thesis using suspended unset by simp
qed

section \<open>The error boundary\<close>



section \<open>The wait helper\<close>

text \<open>
  C8. When the poll for the bucket's existence is rejected (a timeout included),
  \<open>waitFor\<close> writes one log line with the message and resolves to \<open>False\<close>; it does not
  raise. A run whose probe was rejected and whose \<^verbatim>\<open>createBucket\<close> was answered
  completes its existence statement whatever the poll did, and goes on with the four
  statements that follow, from the remote state the poll left.
\<close>

theorem wait_failure_is_not_fatal:
  "(\<forall>e. fst (sdk_waitFor P state (bucket_params name) w) = Inl e
        \<longrightarrow> outcome (waitFor P name state) w = Inr False
          \<and> emitted (waitFor P name state) w
              = [WaitFor state (bucket_params name) (Inl e),
                 CliLog (''Unable to wait for '' @ [CHR 0x27] @ state @ [CHR 0x27] @ '' - ''
                         @ message e)])
   \<and> (\<forall>n e0 r e.
          get_prop h (deploymentBucket this) ''name'' = Inr n
          \<and> fst (request P ''S3'' ''headBucket'' (bucket_params n) w) = Inl e0
          \<and> fst (request P ''S3'' ''createBucket'' (create_params n)
                   (snd (request P ''S3'' ''headBucket'' (bucket_params n) w))) = Inr r
          \<and> fst (sdk_waitFor P ''bucketExists'' (bucket_params n)
                   (snd (request P ''S3'' ''createBucket'' (create_params n)
                          (snd (request P ''S3'' ''headBucket'' (bucket_params n) w))))) = Inl e
        \<longrightarrow> outcome (applyDeploymentBucket_existence h P this) w = Inr ()
          \<and> emitted (applyDeploymentBucket_existence h P this) w
              = [Request ''S3'' ''headBucket'' (bucket_params n) (Inl e0),
                 CliLog (''Creating deployment bucket '' @ [CHR 0x27] @ template h n
                         @ [CHR 0x27] @ ''...''),
                 Request ''S3'' ''createBucket'' (create_params n) (Inr r),
                 WaitFor ''bucketExists'' (bucket_params n) (Inl e),
                 CliLog (''Unable to wait for '' @ [CHR 0x27] @ ''bucketExists'' @ [CHR 0x27]
                         @ '' - '' @ message e)]
          \<and> outcome (applyDeploymentBucket_try h P this) w
              = outcome (remaining_facets h P this) (after_existence h P this w)
          \<and> emitted (applyDeploymentBucket_try h P this) w
              = emitted (applyDeploymentBucket_existence h P this) w
                @ emitted (remaining_facets h P this) (after_existence h P this w))"
  (is "?helper \<and> ?continues")
proof -
  have helper: ?helper
    by (simp add: outcome_waitFor emitted_waitFor)
  have continues: ?continues
  proof (intro allI impI, elim conjE)
    fix n e0 r e
    assume n: "get_prop h (deploymentBucket this) ''name'' = Inr n"
      and p: "fst (request P ''S3'' ''headBucket'' (bucket_params n) w) = Inl e0"
      and c: "fst (request P ''S3'' ''createBucket'' (create_params n)
                   (snd (request P ''S3'' ''headBucket'' (bucket_params n) w))) = Inr r"
      and wt: "fst (sdk_waitFor P ''bucketExists'' (bucket_params n)
                   (snd (request P ''S3'' ''createBucket'' (create_params n)
                          (snd (request P ''S3'' ''headBucket'' (bucket_params n) w))))) = Inl e"
    have o: "outcome (applyDeploymentBucket_existence h P this) w = Inr ()"
      using p c by (simp add: outcome_existence [OF n])
    have ev: "emitted (applyDeploymentBucket_existence h P this) w
              = [Request ''S3'' ''headBucket'' (bucket_params n) (Inl e0),
                 CliLog (''Creating deployment bucket '' @ [CHR 0x27] @ template h n
                         @ [CHR 0x27] @ ''...''),
                 Request ''S3'' ''createBucket'' (create_params n) (Inr r),
                 WaitFor ''bucketExists'' (bucket_params n) (Inl e),
                 CliLog (''Unable to wait for '' @ [CHR 0x27] @ ''bucketExists'' @ [CHR 0x27]
                         @ '' - '' @ message e)]"
      using p c wt by (simp add: emitted_existence [OF n] emitted_waitFor)
    have t1: "outcome (applyDeploymentBucket_try h P this) w
              = outcome (remaining_facets h P this) (after_existence h P this w)"
      using o by (simp add: applyDeploymentBucket_try_def remaining_facets_def after_existence_def
          outcome_bindA [of "applyDeploymentBucket_existence h P this"])
    have t2: "emitted (applyDeploymentBucket_try h P this) w
              = emitted (applyDeploymentBucket_existence h P this) w
                @ emitted (remaining_facets h P this) (after_existence h P this w)"
      using o by (simp add: applyDeploymentBucket_try_def remaining_facets_def after_existence_def
          emitted_bindA [of "applyDeploymentBucket_existence h P this"])
    from o ev t1 t2
    show "outcome (applyDeploymentBucket_existence h P this) w = Inr ()
          \<and> emitted (applyDeploymentBucket_existence h P this) w
              = [Request ''S3'' ''headBucket'' (bucket_params n) (Inl e0),
                 CliLog (''Creating deployment bucket '' @ [CHR 0x27] @ template h n
                         @ [CHR 0x27] @ ''...''),
                 Request ''S3'' ''createBucket'' (create_params n) (Inr r),
                 WaitFor ''bucketExists'' (bucket_params n) (Inl e),
                 CliLog (''Unable to wait for '' @ [CHR 0x27] @ ''bucketExists'' @ [CHR 0x27]
                         @ '' - '' @ message e)]
          \<and> outcome (applyDeploymentBucket_try h P this) w
              = outcome (remaining_facets h P this) (after_existence h P this w)
          \<and> emitted (applyDeploymentBucket_try h P this) w
              = emitted (applyDeploymentBucket_existence h P this) w
                @ emitted (remaining_facets h P this) (after_existence h P this w)"
      by blast
  qed
  from helper continues show ?thesis by blast
qed

theorem wait_failure_is_not_fatal_witness:
  "fst (sdk_waitFor (store_provider [''waitFor'']) ''bucketExists'' (bucket_params (JStr ''b2''))
          [(JStr ''b2'', new_bucket)]) = Inl (ProviderError ''Resource is not in the state'')
   \<and> outcome (waitFor (store_provider [''waitFor'']) (JStr ''b2'') ''bucketExists'')
        [(JStr ''b2'', new_bucket)] = Inr False
   \<and> outcome (applyDeploymentBucket_existence plain_host (store_provider [''waitFor'']) b2_plugin) []
        = Inr ()
   \<and> operations (emitted (applyDeploymentBucket plain_host (store_provider [''waitFor'']) b2_plugin) [])
        = [''headBucket'', ''createBucket'', ''waitFor'', ''getBucketVersioning'',
           ''getBucketAccelerateConfiguration'']"
proof -
  let ?P = "store_provider [''waitFor'']"
  have poll: "fst (sdk_waitFor ?P ''bucketExists'' (bucket_params (JStr ''b2''))
          [(JStr ''b2'', new_bucket)]) = Inl (ProviderError ''Resource is not in the state'')"
    by (simp add: store_defs)
  have name: "get_prop plain_host (deploymentBucket b2_plugin) ''name'' = Inr (JStr ''b2'')"
    by (simp add: b2_plugin_def)
  have probe: "fst (request ?P ''S3'' ''headBucket'' (bucket_params (JStr ''b2'')) [])
                 = Inl (ProviderError ''NoSuchBucket'')"
    by (simp add: store_defs)
  have create: "fst (request ?P ''S3'' ''createBucket'' (create_params (JStr ''b2''))
                  (snd (request ?P ''S3'' ''headBucket'' (bucket_params (JStr ''b2'')) [])))
                 = Inr (Response None)"
    by (simp add: store_defs)
  have poll': "fst (sdk_waitFor ?P ''bucketExists'' (bucket_params (JStr ''b2''))
                  (snd (request ?P ''S3'' ''createBucket'' (create_params (JStr ''b2''))
                     (snd (request ?P ''S3'' ''headBucket'' (bucket_params (JStr ''b2'')) [])))))
                 = Inl (ProviderError ''Resource is not in the state'')"
    by (simp add: store_defs)
  from poll
    wait_failure_is_not_fatal [of ?P "''bucketExists''" "JStr ''b2''" "[(JStr ''b2'', new_bucket)]"]
  have a: "outcome (waitFor ?P (JStr ''b2'') ''bucketExists'') [(JStr ''b2'', new_bucket)] = Inr False"
    by blast
  from name probe create poll'
    wait_failure_is_not_fatal [of ?P "''bucketExists''" "JStr ''b2''" "[]" plain_host b2_plugin]
  have b: "outcome (applyDeploymentBucket_existence plain_host ?P b2_plugin) [] = Inr ()"
    by blast
  have c: "operations (emitted (applyDeploymentBucket plain_host ?P b2_plugin) [])
        = [''headBucket'', ''createBucket'', ''waitFor'', ''getBucketVersioning'',
           ''getBucketAccelerateConfiguration'']"
    by (simp add: model_defs store_defs b2_plugin_def)
  from poll a b c show ?thesis by simp
qed

section \<open>The configuration lookup\<close>

lemma every_step_falsy:
  "read_path h obj (pre @ [step]) = Inr v \<Longrightarrow> \<not> truthy v \<Longrightarrow> \<forall>s \<in> set (pre @ [step]). s \<noteq> [] \<Longrightarrow>
   \<exists>v'. every_step h obj (pre @ step # post) = Inr (False, v')"
proof (induction pre arbitrary: obj)
  case Nil
  then show ?case by (auto split: sum.splits)
next
  case (Cons s pre)
  show ?case
  proof (cases "get_prop h obj s")
    case (Inl e)
    with Cons.prems show ?thesis by simp
  next
    case (Inr u)
    with Cons.prems have rp: "read_path h u (pre @ [step]) = Inr v" by simp
    from Cons.prems have ne: "s \<noteq> []" "\<forall>s \<in> set (pre @ [step]). s \<noteq> []" by auto
    show ?thesis
    proof (cases "truthy u")
      case True
      from Cons.IH [OF rp Cons.prems(2) ne(2)] obtain v' where
        "every_step h u (pre @ step # post) = Inr (False, v')" by blast
      with Inr True ne show ?thesis by simp
    next
      case False
      with Inr ne show ?thesis by simp
    qed
  qed
qed

lemma split_dot_no_dot: "CHR ''.'' \<notin> set k \<Longrightarrow> split_dot k = [k]"
  by (induction k) auto

lemma path_steps_key: "k \<noteq> [] \<Longrightarrow> CHR ''.'' \<notin> set k \<Longrightarrow> path_steps k = [k]"
  by (simp add: path_steps_def split_dot_no_dot)

lemma get_falsy:
  assumes "path_steps path = pre @ step # post" "read_path h obj (pre @ [step]) = Inr v" "\<not> truthy v"
  shows "get h obj path d = Inr d"
proof -
  have "\<forall>s \<in> set (path_steps path). s \<noteq> []" by (simp add: path_steps_def)
  with assms(1) have "\<forall>s \<in> set (pre @ [step]). s \<noteq> []" by auto
  from every_step_falsy [OF assms(2,3) this, of post] obtain v' where
    "every_step h obj (pre @ step # post) = Inr (False, v')" by blast
  with assms(1) show ?thesis by (simp add: get_def path_steps_def)
qed

text \<open>
  C10. For every object, dotted path and default value: when one of the values met along
  the path, the last one included, is falsy, \<open>get\<close> returns the default. So a property
  set to \<^verbatim>\<open>false\<close>, \<^verbatim>\<open>0\<close>, \<^verbatim>\<open>null\<close> or the empty string gives the default, just as
  a property that is not there.
\<close>

theorem get_falsy_step_gives_default:
  "(\<forall>pre step post v.
      path_steps path = pre @ step # post \<and> read_path h obj (pre @ [step]) = Inr v \<and> \<not> truthy v
      \<longrightarrow> get h obj path d = Inr d)
   \<and> (\<forall>k x. k \<noteq> [] \<and> CHR ''.'' \<notin> set k \<and> map_of ps k = Some x
            \<and> x \<in> {JBool False, JNum 0, JNull, JStr []}
      \<longrightarrow> get h (JObj ps) k d = Inr d)
   \<and> (\<forall>k. k \<noteq> [] \<and> CHR ''.'' \<notin> set k \<and> map_of ps k = None
            \<and> inherited h (JObj ps) k = JUndefined
      \<longrightarrow> get h (JObj ps) k d = Inr d)"
  (is "?general \<and> ?set \<and> ?absent")
proof -
  have general: ?general
    using get_falsy by blast
  have set: ?set
  proof (intro allI impI, elim conjE)
    fix k x
    assume k: "k \<noteq> []" "CHR ''.'' \<notin> set k" and x: "map_of ps k = Some x"
      and f: "x \<in> {JBool False, JNum 0, JNull, JStr []}"
    from k have steps: "path_steps k = [] @ k # []" by (simp add: path_steps_key)
    from x have rd: "read_path h (JObj ps) ([] @ [k]) = Inr x" by simp
    from f have "\<not> truthy x" by auto
    from get_falsy [OF steps rd this] show "get h (JObj ps) k d = Inr d" .
  qed
  have absent: ?absent
  proof (intro allI impI, elim conjE)
    fix k
    assume k: "k \<noteq> []" "CHR ''.'' \<notin> set k" and x: "map_of ps k = None"
      and i: "inherited h (JObj ps) k = JUndefined"
    from k have steps: "path_steps k = [] @ k # []" by (simp add: path_steps_key)
    from x i have rd: "read_path h (JObj ps) ([] @ [k]) = Inr JUndefined" by simp
    from get_falsy [OF steps rd] show "get h (JObj ps) k d = Inr d" by simp
  qed
  from general set absent show ?thesis by blast
qed

theorem get_falsy_step_gives_default_witness:
  "path_steps ''custom.deploymentBucket'' = [''custom''] @ ''deploymentBucket'' # []
   \<and> read_path plain_host (JObj [(''custom'', JObj [(''deploymentBucket'', JNum 0)])])
        ([''custom''] @ [''deploymentBucket'']) = Inr (JNum 0)
   \<and> \<not> truthy (JNum 0)
   \<and> get plain_host (JObj [(''custom'', JObj [(''deploymentBucket'', JNum 0)])])
        ''custom.deploymentBucket'' (JObj []) = Inr (JObj [])
   \<and> get plain_host (JObj [(''versioning'', JBool False)]) ''versioning'' (JBool True)
        = Inr (JBool True)
   \<and> get plain_host (JObj []) ''versioning'' (JBool True) = Inr (JBool True)"
proof -
  let ?obj = "JObj [(''custom'', JObj [(''deploymentBucket'', JNum 0)])]"
  have steps: "path_steps ''custom.deploymentBucket'' = [''custom''] @ ''deploymentBucket'' # []"
    by (simp add: path_steps_def)
  have rd: "read_path plain_host ?obj ([''custom''] @ [''deploymentBucket'']) = Inr (JNum 0)"
    by simp
  have f: "\<not> truthy (JNum 0)" by simp
  from steps rd f
    get_falsy_step_gives_default [of "''custom.deploymentBucket''" plain_host ?obj "JObj []"]
  have a: "get plain_host ?obj ''custom.deploymentBucket'' (JObj []) = Inr (JObj [])"
    by blast
  have "''versioning'' \<noteq> [] \<and> CHR ''.'' \<notin> set ''versioning''
        \<and> map_of [(''versioning'', JBool False)] ''versioning'' = Some (JBool False)
        \<and> JBool False \<in> {JBool False, JNum 0, JNull, JStr []}"
    by simp
  with get_falsy_step_gives_default [of _ plain_host _ "JBool True" "[(''versioning'', JBool False)]"]
  have b: "get plain_host (JObj [(''versioning'', JBool False)]) ''versioning'' (JBool True)
        = Inr (JBool True)"
    by blast
  have "''versioning'' \<noteq> [] \<and> CHR ''.'' \<notin> set ''versioning''
        \<and> map_of ([] :: (string \<times> jsval) list) ''versioning'' = None
        \<and> inherited plain_host (JObj []) ''versioning'' = JUndefined"
    by (simp add: plain_host_def)
  with get_falsy_step_gives_default [of _ plain_host _ "JBool True" "[]"]
  have c: "get plain_host (JObj []) ''versioning'' (JBool True) = Inr (JBool True)"
    by blast
  from steps rd f a b c show ?thesis by blast
qed

section \<open>The activation gate\<close>

lemma bindE_simps [simp]: "bindE (Inl e) f = Inl e" "bindE (Inr x) f = f x"
  by (simp_all add: bindE_def)

lemma bindE_Inr_iff: "(bindE r f = Inr y) = (\<exists>x. r = Inr x \<and> f x = Inr y)"
  by (cases r) simp_all

lemma constructor_hooks:
  assumes "constructor h serverless = Inr this"
  shows "hooks this = (if gate_open h serverless then [(hook_name, ApplyDeploymentBucket)] else [])"
proof -
  from assms obtain providers provider version service dB cfg enabled where
    f: "get_prop h serverless ''providers'' = Inr providers"
       "get_prop h providers ''aws'' = Inr provider"
       "get_prop h serverless ''version'' = Inr version"
       "get_prop h serverless ''service'' = Inr service"
       "get h service (if semver_satisfies h version ''>=2.10.0'' then ''provider.deploymentBucket''
                       else ''provider.deploymentBucketObject'') (JObj []) = Inr dB"
       "get h service ''custom.deploymentBucket'' (JObj []) = Inr cfg"
       "get_prop h cfg ''enabled'' = Inr enabled"
    and rest: "(if enabled \<noteq> JUndefined \<and> enabled = JBool False then
       Inr \<lparr> deploymentBucket = dB, config = cfg, hooks = [] \<rparr>
     else
       bindE (get_prop h dB ''name'') (\<lambda>name.
       if truthy name then
         bindE (get h cfg ''versioning'' (JBool False)) (\<lambda>versioning.
         bindE (set_prop cfg ''versioning'' versioning) (\<lambda>config1.
         bindE (get h config1 ''accelerate'' (JBool False)) (\<lambda>accelerate.
         bindE (set_prop config1 ''accelerate'' accelerate) (\<lambda>config2.
         bindE (get h config2 ''policy'' JUndefined) (\<lambda>policy.
         bindE (set_prop config2 ''policy'' policy) (\<lambda>config3.
         bindE (get h serverless ''processedInput.commands'' (JArr [] [])) (\<lambda>serverlessCommand.
         bindE (includes_call h serverlessCommand ''package'') (\<lambda>included.
         Inr \<lparr> deploymentBucket = dB, config = config3,
               hooks = (if \<not> truthy included then [(hook_name, ApplyDeploymentBucket)]
                        else []) \<rparr>))))))))
       else
         Inr \<lparr> deploymentBucket = dB, config = cfg, hooks = [] \<rparr>)) = Inr this"
    unfolding constructor_def Let_def bindE_Inr_iff by blast
  have flag: "enabled_flag h serverless = Inr enabled"
    by (simp add: enabled_flag_def f)
  show ?thesis
  proof (cases "enabled = JBool False")
    case True
    with rest flag show ?thesis by (auto simp add: gate_open_def)
  next
    case False
    with rest obtain name where n: "get_prop h dB ''name'' = Inr name"
      and rest2: "(if truthy name then
         bindE (get h cfg ''versioning'' (JBool False)) (\<lambda>versioning.
         bindE (set_prop cfg ''versioning'' versioning) (\<lambda>config1.
         bindE (get h config1 ''accelerate'' (JBool False)) (\<lambda>accelerate.
         bindE (set_prop config1 ''accelerate'' accelerate) (\<lambda>config2.
         bindE (get h config2 ''policy'' JUndefined) (\<lambda>policy.
         bindE (set_prop config2 ''policy'' policy) (\<lambda>config3.
         bindE (get h serverless ''processedInput.commands'' (JArr [] [])) (\<lambda>serverlessCommand.
         bindE (includes_call h serverlessCommand ''package'') (\<lambda>included.
         Inr \<lparr> deploymentBucket = dB, config = config3,
               hooks = (if \<not> truthy included then [(hook_name, ApplyDeploymentBucket)]
                        else []) \<rparr>))))))))
       else
         Inr \<lparr> deploymentBucket = dB, config = cfg, hooks = [] \<rparr>) = Inr this"
      by (auto simp add: bindE_Inr_iff)
    have bn: "bucket_name h serverless = Inr name"
      by (simp add: bucket_name_def f n)
    show ?thesis
    proof (cases "truthy name")
      case no: False
      with rest2 bn show ?thesis by (auto simp add: gate_open_def)
    next
      case yes: True
      with rest2 obtain cmds included cfg3 where
        c: "get h serverless ''processedInput.commands'' (JArr [] []) = Inr cmds"
           "includes_call h cmds ''package'' = Inr included"
        and t: "this = \<lparr> deploymentBucket = dB, config = cfg3,
               hooks = (if \<not> truthy included then [(hook_name, ApplyDeploymentBucket)]
                        else []) \<rparr>"
        by (auto simp add: bindE_Inr_iff)
      have ip: "includes_package h serverless = Inr included"
        by (simp add: includes_package_def c)
      from t flag bn ip yes False show ?thesis by (simp add: gate_open_def)
    qed
  qed
qed

text \<open>
  C9. Whenever the constructor returns, the hook table holds the reconciliation entry
  point under the one lifecycle hook if the gate is open, and is empty otherwise. The gate
  is open if and only if the enable flag is not \<^verbatim>\<open>false\<close> (a flag that is not set
  counts as enabled), the bucket name is truthy, and the command list does not include
  \<^verbatim>\<open>package\<close>; so with no bucket name no hook is registered.
\<close>

theorem hook_registered_iff_gate_open:
  "(\<forall>this. constructor h serverless = Inr this
      \<longrightarrow> hooks this = (if gate_open h serverless then [(hook_name, ApplyDeploymentBucket)] else []))
   \<and> (gate_open h serverless \<longleftrightarrow>
        enabled_flag h serverless \<noteq> Inr (JBool False)
        \<and> (\<exists>name. bucket_name h serverless = Inr name \<and> truthy name)
        \<and> (\<exists>included. includes_package h serverless = Inr included \<and> \<not> truthy included))
   \<and> (\<forall>xs. get h serverless ''processedInput.commands'' (JArr [] []) = Inr (JArr xs [])
        \<longrightarrow> includes_package h serverless = Inr (JBool (JStr ''package'' \<in> set xs)))"
  (is "?hooks \<and> ?gate \<and> ?cmds")
proof -
  have hooks: ?hooks
    using constructor_hooks by blast
  have gate: ?gate
    by (cases "bucket_name h serverless"; cases "includes_package h serverless")
       (simp_all add: gate_open_def)
  have cmds: ?cmds
    by (simp add: includes_package_def)
  from hooks gate cmds show ?thesis by blast
qed

theorem hook_registered_iff_gate_open_witness:
  "constructor plain_host b2_serverless = Inr b2_plugin
   \<and> gate_open plain_host b2_serverless
   \<and> hooks b2_plugin = [(hook_name, ApplyDeploymentBucket)]
   \<and> constructor plain_host
        (JObj [(''version'', JStr ''3.38.0''), (''providers'', JObj [(''aws'', JObj [])]),
               (''service'', JObj []),
               (''processedInput'', JObj [(''commands'', JArr [JStr ''deploy''] [])])])
       = Inr \<lparr> deploymentBucket = JObj [], config = JObj [], hooks = [] \<rparr>"
proof -
  have built: "constructor plain_host b2_serverless = Inr b2_plugin"
    by (simp add: constructor_def b2_serverless_def b2_plugin_def get_def plain_host_def Let_def)
  have gate: "gate_open plain_host b2_serverless"
    by (simp add: gate_open_def enabled_flag_def bucket_name_def includes_package_def
        b2_serverless_def get_def plain_host_def)
  from built gate hook_registered_iff_gate_open [of plain_host b2_serverless]
  have registered: "hooks b2_plugin = [(hook_name, ApplyDeploymentBucket)]"
    by simp
  have unnamed: "constructor plain_host
        (JObj [(''version'', JStr ''3.38.0''), (''providers'', JObj [(''aws'', JObj [])]),
               (''service'', JObj []),
               (''processedInput'', JObj [(''commands'', JArr [JStr ''deploy''] [])])])
       = Inr \<lparr> deploymentBucket = JObj [], config = JObj [], hooks = [] \<rparr>"
    by (simp add: constructor_def get_def plain_host_def Let_def)
  from built gate registered unnamed show ?thesis by simp
qed

section \<open>The provider calls of a run, by operation\<close>

lemma requests_of_simps [simp]:
  "requests_of operation [] = []"
  "requests_of operation (Request s operation' params r # evs) =
     (if operation' = operation then Request s operation' params r # requests_of operation evs
      else requests_of operation evs)"
  "requests_of operation (WaitFor state params rw # evs) =
     (if operation = ''waitFor'' then WaitFor state params rw # requests_of operation evs
      else requests_of operation evs)"
  "requests_of operation (CliLog m # evs) = requests_of operation evs"
  "requests_of operation (ConsoleError m # evs) = requests_of operation evs"
  "requests_of operation (xs @ ys) = requests_of operation xs @ requests_of operation ys"
  by (auto simp add: requests_of_def)

lemma requests_of_empty_iff:
  "requests_of operation evs = [] \<longleftrightarrow> operation \<notin> set (operations evs)"
proof (induction evs)
  case Nil
  show ?case by simp
next
  case (Cons ev evs)
  then show ?case by (cases ev) auto
qed

lemma request_in_requests_of:
  "Request s operation params r \<in> set evs
     \<longleftrightarrow> Request s operation params r \<in> set (requests_of operation evs)"
  by (simp add: requests_of_def)

lemma requests_of_none: "set (operations evs) \<subseteq> S \<Longrightarrow> x \<notin> S \<Longrightarrow> requests_of x evs = []"
  unfolding requests_of_empty_iff by blast

lemma requests_of_existence_other:
  "operation \<notin> {''headBucket'', ''createBucket'', ''waitFor''}
     \<Longrightarrow> requests_of operation (emitted (applyDeploymentBucket_existence h P this) w) = []"
  by (rule requests_of_none [OF existence_ops])

lemma requests_of_encryption_other:
  "operation \<notin> {''getBucketEncryption'', ''putBucketEncryption''}
     \<Longrightarrow> requests_of operation (emitted (applyDeploymentBucket_encryption h P this) w) = []"
  by (rule requests_of_none [OF encryption_ops])

lemma requests_of_versioning_other:
  "operation \<notin> {''getBucketVersioning'', ''putBucketVersioning''}
     \<Longrightarrow> requests_of operation (emitted (applyDeploymentBucket_versioning h P this) w) = []"
  by (rule requests_of_none [OF versioning_ops])

lemma requests_of_acceleration_other:
  "operation \<notin> {''getBucketAccelerateConfiguration'', ''putBucketAccelerateConfiguration''}
     \<Longrightarrow> requests_of operation (emitted (applyDeploymentBucket_acceleration h P this) w) = []"
  by (rule requests_of_none [OF acceleration_ops])

lemma requests_of_policy_other:
  "operation \<notin> {''putBucketPolicy''}
     \<Longrightarrow> requests_of operation (emitted (applyDeploymentBucket_policy h P this) w) = []"
  by (rule requests_of_none [OF policy_ops])

lemmas requests_of_step_other = requests_of_existence_other requests_of_encryption_other
  requests_of_versioning_other requests_of_acceleration_other requests_of_policy_other

lemma run_requests:
  "requests_of operation (emitted (applyDeploymentBucket h P this) w)
     = requests_of operation (emitted (applyDeploymentBucket_try h P this) w)"
  by (simp add: emitted_run split: sum.splits)

lemma try_requests_getBucketEncryption:
  "requests_of ''getBucketEncryption'' (emitted (applyDeploymentBucket_try h P this) w) =
    (case outcome (applyDeploymentBucket_existence h P this) w of Inl e \<Rightarrow> [] | Inr u \<Rightarrow>
     requests_of ''getBucketEncryption'' (emitted (applyDeploymentBucket_encryption h P this) (after_existence h P this w)))"
  by (simp add: emitted_try requests_of_step_other split: sum.splits)

lemma try_requests_putBucketEncryption:
  "requests_of ''putBucketEncryption'' (emitted (applyDeploymentBucket_try h P this) w) =
    (case outcome (applyDeploymentBucket_existence h P this) w of Inl e \<Rightarrow> [] | Inr u \<Rightarrow>
     requests_of ''putBucketEncryption'' (emitted (applyDeploymentBucket_encryption h P this) (after_existence h P this w)))"
  by (simp add: emitted_try requests_of_step_other split: sum.splits)





lemma try_requests_putBucketPolicy:
  "requests_of ''putBucketPolicy'' (emitted (applyDeploymentBucket_try h P this) w) =
    (case outcome (applyDeploymentBucket_existence h P this) w of Inl e \<Rightarrow> [] | Inr u \<Rightarrow>
     case outcome (applyDeploymentBucket_encryption h P this) (after_existence h P this w) of Inl e \<Rightarrow> [] | Inr u \<Rightarrow>
     case outcome (applyDeploymentBucket_versioning h P this) (after_encryption h P this w) of Inl e \<Rightarrow> [] | Inr u \<Rightarrow>
     case outcome (applyDeploymentBucket_acceleration h P this) (after_versioning h P this w) of Inl e \<Rightarrow> [] | Inr u \<Rightarrow>
     requests_of ''putBucketPolicy'' (emitted (applyDeploymentBucket_policy h P this) (after_acceleration h P this w)))"
  by (simp add: emitted_try requests_of_step_other split: sum.splits)

lemma step_operations_subset:
  "set (operations (emitted (applyDeploymentBucket_existence h P this) w))
     \<subseteq> set plugin_operations \<union> {''waitFor''}"
  "set (operations (emitted (applyDeploymentBucket_encryption h P this) w))
     \<subseteq> set plugin_operations \<union> {''waitFor''}"
  "set (operations (emitted (applyDeploymentBucket_versioning h P this) w))
     \<subseteq> set plugin_operations \<union> {''waitFor''}"
  "set (operations (emitted (applyDeploymentBucket_acceleration h P this) w))
     \<subseteq> set plugin_operations \<union> {''waitFor''}"
  "set (operations (emitted (applyDeploymentBucket_policy h P this) w))
     \<subseteq> set plugin_operations \<union> {''waitFor''}"
proof -
  show "set (operations (emitted (applyDeploymentBucket_existence h P this) w))
     \<subseteq> set plugin_operations \<union> {''waitFor''}"
    by (rule order_trans [OF existence_ops]) (simp add: plugin_operations_def)
  show "set (operations (emitted (applyDeploymentBucket_encryption h P this) w))
     \<subseteq> set plugin_operations \<union> {''waitFor''}"
    by (rule order_trans [OF encryption_ops]) (simp add: plugin_operations_def)
  show "set (operations (emitted (applyDeploymentBucket_versioning h P this) w))
     \<subseteq> set plugin_operations \<union> {''waitFor''}"
    by (rule order_trans [OF versioning_ops]) (simp add: plugin_operations_def)
  show "set (operations (emitted (applyDeploymentBucket_acceleration h P this) w))
     \<subseteq> set plugin_operations \<union> {''waitFor''}"
    by (rule order_trans [OF acceleration_ops]) (simp add: plugin_operations_def)
  show "set (operations (emitted (applyDeploymentBucket_policy h P this) w))
     \<subseteq> set plugin_operations \<union> {''waitFor''}"
    by (rule order_trans [OF policy_ops]) (simp add: plugin_operations_def)
qed

lemma try_operations_subset:
  "set (operations (emitted (applyDeploymentBucket_try h P this) w))
     \<subseteq> set plugin_operations \<union> {''waitFor''}"
  by (simp add: emitted_try step_operations_subset del: Un_insert_right split: sum.splits)

section \<open>Encryption\<close>

lemma encryption_get_requests:
  "requests_of ''getBucketEncryption'' (emitted (applyDeploymentBucket_encryption h P this) w) =
    (case get_prop h (deploymentBucket this) ''serverSideEncryption'' of
       Inl e \<Rightarrow> []
     | Inr sse \<Rightarrow>
        if truthy sse then
          (case get_prop h (deploymentBucket this) ''name'' of
             Inl e \<Rightarrow> []
           | Inr name \<Rightarrow>
               [Request ''S3'' ''getBucketEncryption'' (bucket_params name)
                  (fst (request P ''S3'' ''getBucketEncryption'' (bucket_params name) w))])
        else [])"
  by (simp add: applyDeploymentBucket_encryption_def run_simps call_simps split: sum.splits)

lemma encryption_put_requests:
  "requests_of ''putBucketEncryption'' (emitted (applyDeploymentBucket_encryption h P this) w) =
    (case get_prop h (deploymentBucket this) ''serverSideEncryption'' of
       Inl e \<Rightarrow> []
     | Inr sse \<Rightarrow>
        if truthy sse then
          (case get_prop h (deploymentBucket this) ''name'' of
             Inl e \<Rightarrow> []
           | Inr name \<Rightarrow>
              (case fst (request P ''S3'' ''getBucketEncryption'' (bucket_params name) w) of
                 Inr response \<Rightarrow> []
               | Inl e \<Rightarrow>
                  [Request ''S3'' ''putBucketEncryption'' (encryption_params name sse)
                     (fst (request P ''S3'' ''putBucketEncryption'' (encryption_params name sse)
                            (snd (request P ''S3'' ''getBucketEncryption'' (bucket_params name) w))))]))
        else [])"
  by (simp add: applyDeploymentBucket_encryption_def run_simps call_simps encryption_params_def
      split: sum.splits)

lemma encryption_put_iff:
  "requests_of ''putBucketEncryption'' (emitted (applyDeploymentBucket_encryption h P this) w) \<noteq> []
   \<longleftrightarrow> (\<exists>sse. get_prop h (deploymentBucket this) ''serverSideEncryption'' = Inr sse \<and> truthy sse)
       \<and> (\<exists>name e. Request ''S3'' ''getBucketEncryption'' (bucket_params name) (Inl e)
                       \<in> set (requests_of ''getBucketEncryption''
                                 (emitted (applyDeploymentBucket_encryption h P this) w)))"
proof (cases "get_prop h (deploymentBucket this) ''serverSideEncryption''")
  case (Inl e)
  then show ?thesis by (simp add: encryption_get_requests encryption_put_requests)
next
  case sse: (Inr sse)
  show ?thesis
  proof (cases "truthy sse")
    case False
    with sse show ?thesis by (simp add: encryption_get_requests encryption_put_requests)
  next
    case True
    show ?thesis
    proof (cases "get_prop h (deploymentBucket this) ''name''")
      case (Inl e)
      with sse True show ?thesis by (simp add: encryption_get_requests encryption_put_requests)
    next
      case n: (Inr name)
      show ?thesis
      proof (cases "fst (request P ''S3'' ''getBucketEncryption'' (bucket_params name) w)")
        case (Inl e)
        with sse True n show ?thesis
          by (auto simp add: encryption_get_requests encryption_put_requests)
      next
        case (Inr r)
        with sse True n show ?thesis
          by (auto simp add: encryption_get_requests encryption_put_requests)
      qed
    qed
  qed
qed

lemma encryption_answered_no_put:
  assumes "Request ''S3'' ''getBucketEncryption'' params (Inr response)
     \<in> set (requests_of ''getBucketEncryption'' (emitted (applyDeploymentBucket_encryption h P this) w))"
  shows "requests_of ''putBucketEncryption'' (emitted (applyDeploymentBucket_encryption h P this) w) = []"
proof (cases "get_prop h (deploymentBucket this) ''serverSideEncryption''")
  case (Inl e)
  then show ?thesis by (simp add: encryption_put_requests)
next
  case sse: (Inr sse)
  show ?thesis
  proof (cases "get_prop h (deploymentBucket this) ''name''")
    case (Inl e)
    with sse show ?thesis by (simp add: encryption_put_requests)
  next
    case n: (Inr name)
    show ?thesis
    proof (cases "fst (request P ''S3'' ''getBucketEncryption'' (bucket_params name) w)")
      case (Inl e)
      with sse n assms show ?thesis
        by (cases "truthy sse") (simp_all add: encryption_get_requests)
    next
      case (Inr r)
      with sse n show ?thesis by (simp add: encryption_put_requests)
    qed
  qed
qed

lemma encryption_counts:
  "length (requests_of ''putBucketEncryption'' (emitted (applyDeploymentBucket_encryption h P this) w)) \<le> 1"
  by (simp add: encryption_put_requests split: sum.splits)

text \<open>
  C3, as the code has it. In every run \<^verbatim>\<open>putBucketEncryption\<close> is called if and only
  if \<^verbatim>\<open>serverSideEncryption\<close> is set (truthy) and the run's encryption query was
  rejected, which is when \<open>hasBucketEncryption\<close> reports \<open>False\<close>. When the query was
  answered (\<open>hasBucketEncryption\<close> reports \<open>True\<close>), whatever the answer holds, it is not
  called. A run that completes its existence statement with \<^verbatim>\<open>serverSideEncryption\<close>
  set makes the query, once, and the outcome of the query alone decides the call, which
  carries the requested algorithm; with \<^verbatim>\<open>serverSideEncryption\<close> not set neither the
  query nor the call is made. The call is made at most once, and every provider call of a
  run is one of the plugin's nine operations or the wait: none of them removes the
  encryption.
\<close>

theorem encryption_applied_only_when_missing:
  "(requests_of ''putBucketEncryption'' (emitted (applyDeploymentBucket h P this) w) \<noteq> []
     \<longleftrightarrow> (\<exists>sse. get_prop h (deploymentBucket this) ''serverSideEncryption'' = Inr sse \<and> truthy sse)
         \<and> (\<exists>name e. Request ''S3'' ''getBucketEncryption'' (bucket_params name) (Inl e)
                        \<in> set (emitted (applyDeploymentBucket h P this) w)))
   \<and> (\<forall>params response.
         Request ''S3'' ''getBucketEncryption'' params (Inr response)
           \<in> set (emitted (applyDeploymentBucket h P this) w)
         \<longrightarrow> requests_of ''putBucketEncryption'' (emitted (applyDeploymentBucket h P this) w) = [])
   \<and> (\<forall>sse name.
         outcome (applyDeploymentBucket_existence h P this) w = Inr ()
         \<and> get_prop h (deploymentBucket this) ''serverSideEncryption'' = Inr sse \<and> truthy sse
         \<and> get_prop h (deploymentBucket this) ''name'' = Inr name
         \<longrightarrow> requests_of ''getBucketEncryption'' (emitted (applyDeploymentBucket h P this) w)
              = [Request ''S3'' ''getBucketEncryption'' (bucket_params name)
                   (fst (request P ''S3'' ''getBucketEncryption'' (bucket_params name)
                          (after_existence h P this w)))]
           \<and> requests_of ''putBucketEncryption'' (emitted (applyDeploymentBucket h P this) w)
              = (case fst (request P ''S3'' ''getBucketEncryption'' (bucket_params name)
                             (after_existence h P this w)) of
                   Inr response \<Rightarrow> []
                 | Inl e \<Rightarrow>
                     [Request ''S3'' ''putBucketEncryption'' (encryption_params name sse)
                        (fst (request P ''S3'' ''putBucketEncryption'' (encryption_params name sse)
                               (snd (request P ''S3'' ''getBucketEncryption'' (bucket_params name)
                                       (after_existence h P this w)))))]))
   \<and> (\<forall>sse. get_prop h (deploymentBucket this) ''serverSideEncryption'' = Inr sse \<and> \<not> truthy sse
         \<longrightarrow> requests_of ''getBucketEncryption'' (emitted (applyDeploymentBucket h P this) w) = []
           \<and> requests_of ''putBucketEncryption'' (emitted (applyDeploymentBucket h P this) w) = [])
   \<and> length (requests_of ''putBucketEncryption'' (emitted (applyDeploymentBucket h P this) w)) \<le> 1
   \<and> set (operations (emitted (applyDeploymentBucket h P this) w))
        \<subseteq> set plugin_operations \<union> {''waitFor''}
   \<and> ''deleteBucketEncryption'' \<notin> set (operations (emitted (applyDeploymentBucket h P this) w))"
  (is "?iff \<and> ?answered \<and> ?made \<and> ?unset \<and> ?once \<and> ?vocabulary \<and> ?never_removed")
proof -
  let ?evs = "emitted (applyDeploymentBucket h P this) w"
  let ?s2 = "emitted (applyDeploymentBucket_encryption h P this) (after_existence h P this w)"
  have puts: "requests_of ''putBucketEncryption'' ?evs =
      (case outcome (applyDeploymentBucket_existence h P this) w of
         Inl e \<Rightarrow> [] | Inr u \<Rightarrow> requests_of ''putBucketEncryption'' ?s2)"
    by (simp only: run_requests try_requests_putBucketEncryption)
  have gets: "requests_of ''getBucketEncryption'' ?evs =
      (case outcome (applyDeploymentBucket_existence h P this) w of
         Inl e \<Rightarrow> [] | Inr u \<Rightarrow> requests_of ''getBucketEncryption'' ?s2)"
    by (simp only: run_requests try_requests_getBucketEncryption)
  have mem: "\<And>params r. Request ''S3'' ''getBucketEncryption'' params r \<in> set ?evs
      \<longleftrightarrow> Request ''S3'' ''getBucketEncryption'' params r
            \<in> set (requests_of ''getBucketEncryption'' ?evs)"
    by (rule request_in_requests_of)
  have iff: ?iff
  proof (cases "outcome (applyDeploymentBucket_existence h P this) w")
    case (Inl e)
    then show ?thesis by (simp add: puts mem gets)
  next
    case (Inr u)
    then show ?thesis
      using encryption_put_iff [of h P this "after_existence h P this w"]
      by (simp add: puts mem gets)
  qed
  have answered: ?answered
  proof (cases "outcome (applyDeploymentBucket_existence h P this) w")
    case (Inl e)
    then show ?thesis by (simp add: puts)
  next
    case (Inr u)
    then show ?thesis
      using encryption_answered_no_put [of _ _ h P this "after_existence h P this w"]
      by (simp add: puts mem gets)
  qed
  have made: ?made
  proof (intro allI impI, elim conjE)
    fix sse name
    assume s1: "outcome (applyDeploymentBucket_existence h P this) w = Inr ()"
      and sse: "get_prop h (deploymentBucket this) ''serverSideEncryption'' = Inr sse"
      and set: "truthy sse"
      and name: "get_prop h (deploymentBucket this) ''name'' = Inr name"
    have g: "requests_of ''getBucketEncryption'' ?evs
              = [Request ''S3'' ''getBucketEncryption'' (bucket_params name)
                   (fst (request P ''S3'' ''getBucketEncryption'' (bucket_params name)
                          (after_existence h P this w)))]"
      using s1 sse set name by (simp add: gets encryption_get_requests)
    have p: "requests_of ''putBucketEncryption'' ?evs
              = (case fst (request P ''S3'' ''getBucketEncryption'' (bucket_params name)
                             (after_existence h P this w)) of
                   Inr response \<Rightarrow> []
                 | Inl e \<Rightarrow>
                     [Request ''S3'' ''putBucketEncryption'' (encryption_params name sse)
                        (fst (request P ''S3'' ''putBucketEncryption'' (encryption_params name sse)
                               (snd (request P ''S3'' ''getBucketEncryption'' (bucket_params name)
                                       (after_existence h P this w)))))])"
      using s1 sse set name by (simp add: puts encryption_put_requests)
    from g p
    show "requests_of ''getBucketEncryption'' ?evs
              = [Request ''S3'' ''getBucketEncryption'' (bucket_params name)
                   (fst (request P ''S3'' ''getBucketEncryption'' (bucket_params name)
                          (after_existence h P this w)))]
           \<and> requests_of ''putBucketEncryption'' ?evs
              = (case fst (request P ''S3'' ''getBucketEncryption'' (bucket_params name)
                             (after_existence h P this w)) of
                   Inr response \<Rightarrow> []
                 | Inl e \<Rightarrow>
                     [Request ''S3'' ''putBucketEncryption'' (encryption_params name sse)
                        (fst (request P ''S3'' ''putBucketEncryption'' (encryption_params name sse)
                               (snd (request P ''S3'' ''getBucketEncryption'' (bucket_params name)
                                       (after_existence h P this w)))))])"
      by (rule conjI)
  qed
  have unset: ?unset
  proof (intro allI impI, elim conjE)
    fix sse
    assume sse: "get_prop h (deploymentBucket this) ''serverSideEncryption'' = Inr sse"
      and unset: "\<not> truthy sse"
    show "requests_of ''getBucketEncryption'' ?evs = []
           \<and> requests_of ''putBucketEncryption'' ?evs = []"
      using sse unset
      by (cases "outcome (applyDeploymentBucket_existence h P this) w")
         (simp_all add: puts gets encryption_get_requests encryption_put_requests)
  qed
  have once: ?once
    using encryption_counts [of h P this "after_existence h P this w"]
    by (simp add: puts split: sum.splits)
  have vocabulary: ?vocabulary
    by (simp only: run_operations try_operations_subset)
  have "''deleteBucketEncryption'' \<notin> set plugin_operations \<union> {''waitFor''}"
    by (simp add: plugin_operations_def)
  with vocabulary have never_removed: ?never_removed
    by blast
  from iff answered made unset once vocabulary never_removed show ?thesis by blast
qed

theorem encryption_applied_only_when_missing_witness:
  "get_prop plain_host (deploymentBucket b3_plugin) ''serverSideEncryption'' = Inr (JStr ''AES256'')
   \<and> truthy (JStr ''AES256'')
   \<and> Request ''S3'' ''getBucketEncryption'' (bucket_params (JStr ''b3''))
         (Inl (ProviderError ''ServerSideEncryptionConfigurationNotFoundError''))
       \<in> set (emitted (applyDeploymentBucket plain_host (store_provider []) b3_plugin)
                 [(JStr ''b3'', new_bucket)])
   \<and> requests_of ''putBucketEncryption''
         (emitted (applyDeploymentBucket plain_host (store_provider []) b3_plugin)
            [(JStr ''b3'', new_bucket)]) \<noteq> []
   \<and> outcome (applyDeploymentBucket_existence plain_host (store_provider []) b3_plugin)
         [(JStr ''b3'', new_bucket)] = Inr ()
   \<and> get_prop plain_host (deploymentBucket b3_plugin) ''name'' = Inr (JStr ''b3'')
   \<and> requests_of ''putBucketEncryption''
         (emitted (applyDeploymentBucket plain_host (store_provider []) b3_plugin)
            [(JStr ''b3'', new_bucket)])
       = [Request ''S3'' ''putBucketEncryption''
            (encryption_params (JStr ''b3'') (JStr ''AES256'')) (Inr (Response None))]
   \<and> Request ''S3'' ''getBucketEncryption'' (bucket_params (JStr ''b3'')) (Inr (Response None))
       \<in> set (emitted (applyDeploymentBucket plain_host (store_provider []) b3_plugin)
                 [(JStr ''b3'', new_bucket\<lparr>b_encryption := Some (JStr ''aws:kms'')\<rparr>)])
   \<and> requests_of ''putBucketEncryption''
         (emitted (applyDeploymentBucket plain_host (store_provider []) b3_plugin)
            [(JStr ''b3'', new_bucket\<lparr>b_encryption := Some (JStr ''aws:kms'')\<rparr>)]) = []"
proof -
  let ?P = "store_provider []"
  let ?bare = "[(JStr ''b3'', new_bucket)]"
  let ?kms = "[(JStr ''b3'', new_bucket\<lparr>b_encryption := Some (JStr ''aws:kms'')\<rparr>)]"
  have sse: "get_prop plain_host (deploymentBucket b3_plugin) ''serverSideEncryption''
               = Inr (JStr ''AES256'')"
    by (simp add: b3_plugin_def)
  have t: "truthy (JStr ''AES256'')" by simp
  have missing: "Request ''S3'' ''getBucketEncryption'' (bucket_params (JStr ''b3''))
         (Inl (ProviderError ''ServerSideEncryptionConfigurationNotFoundError''))
       \<in> set (emitted (applyDeploymentBucket plain_host ?P b3_plugin) ?bare)"
    by (simp add: model_defs store_defs b3_plugin_def)
  have configured: "Request ''S3'' ''getBucketEncryption'' (bucket_params (JStr ''b3''))
         (Inr (Response None))
       \<in> set (emitted (applyDeploymentBucket plain_host ?P b3_plugin) ?kms)"
    by (simp add: model_defs store_defs b3_plugin_def)
  from sse t missing encryption_applied_only_when_missing [of plain_host ?P b3_plugin ?bare]
  have applied: "requests_of ''putBucketEncryption''
         (emitted (applyDeploymentBucket plain_host ?P b3_plugin) ?bare) \<noteq> []"
    by blast
  from configured encryption_applied_only_when_missing [of plain_host ?P b3_plugin ?kms]
  have kept: "requests_of ''putBucketEncryption''
         (emitted (applyDeploymentBucket plain_host ?P b3_plugin) ?kms) = []"
    by blast
  have reached: "outcome (applyDeploymentBucket_existence plain_host ?P b3_plugin) ?bare = Inr ()"
    by (simp add: model_defs store_defs b3_plugin_def)
  have name: "get_prop plain_host (deploymentBucket b3_plugin) ''name'' = Inr (JStr ''b3'')"
    by (simp add: b3_plugin_def)
  have query: "fst (request ?P ''S3'' ''getBucketEncryption'' (bucket_params (JStr ''b3''))
                      (after_existence plain_host ?P b3_plugin ?bare))
                 = Inl (ProviderError ''ServerSideEncryptionConfigurationNotFoundError'')"
    by (simp add: after_existence_def model_defs store_defs b3_plugin_def)
  have answer: "fst (request ?P ''S3'' ''putBucketEncryption''
                       (encryption_params (JStr ''b3'') (JStr ''AES256''))
                       (snd (request ?P ''S3'' ''getBucketEncryption'' (bucket_params (JStr ''b3''))
                               (after_existence plain_host ?P b3_plugin ?bare))))
                  = Inr (Response None)"
    by (simp add: after_existence_def model_defs store_defs b3_plugin_def encryption_params_def)
  from reached sse t name encryption_applied_only_when_missing [of plain_host ?P b3_plugin ?bare]
  have "requests_of ''putBucketEncryption''
          (emitted (applyDeploymentBucket plain_host ?P b3_plugin) ?bare)
        = (case fst (request ?P ''S3'' ''getBucketEncryption'' (bucket_params (JStr ''b3''))
                       (after_existence plain_host ?P b3_plugin ?bare)) of
             Inr response \<Rightarrow> []
           | Inl e \<Rightarrow>
               [Request ''S3'' ''putBucketEncryption''
                  (encryption_params (JStr ''b3'') (JStr ''AES256''))
                  (fst (request ?P ''S3'' ''putBucketEncryption''
                          (encryption_params (JStr ''b3'') (JStr ''AES256''))
                          (snd (request ?P ''S3'' ''getBucketEncryption''
                                  (bucket_params (JStr ''b3''))
                                  (after_existence plain_host ?P b3_plugin ?bare)))))])"
    by blast
  with query answer have exact: "requests_of ''putBucketEncryption''
          (emitted (applyDeploymentBucket plain_host ?P b3_plugin) ?bare)
        = [Request ''S3'' ''putBucketEncryption''
             (encryption_params (JStr ''b3'') (JStr ''AES256'')) (Inr (Response None))]"
    by simp
  from sse t missing applied reached name exact configured kept show ?thesis by blast
qed

text \<open>
  The claim C3 as the specification words it, no \<^verbatim>\<open>putBucketEncryption\<close> whenever some
  encryption is already configured, fails where the encryption query is rejected: the
  bucket holds \<^verbatim>\<open>aws:kms\<close>, the query is refused, \<open>hasBucketEncryption\<close> reports
  \<open>False\<close>, and the run calls \<^verbatim>\<open>putBucketEncryption\<close> with \<^verbatim>\<open>AES256\<close>, which replaces
  what was configured.
\<close>

theorem encryption_configured_counterexample:
  "map_of [(JStr ''b3'', new_bucket\<lparr>b_encryption := Some (JStr ''aws:kms'')\<rparr>)] (JStr ''b3'')
     = Some (new_bucket\<lparr>b_encryption := Some (JStr ''aws:kms'')\<rparr>)
   \<and> b_encryption (new_bucket\<lparr>b_encryption := Some (JStr ''aws:kms'')\<rparr>) \<noteq> None
   \<and> get_prop plain_host (deploymentBucket b3_plugin) ''serverSideEncryption'' = Inr (JStr ''AES256'')
   \<and> outcome (hasBucketEncryption (store_provider [''getBucketEncryption'']) (JStr ''b3''))
        [(JStr ''b3'', new_bucket\<lparr>b_encryption := Some (JStr ''aws:kms'')\<rparr>)] = Inr False
   \<and> requests_of ''putBucketEncryption''
        (emitted (applyDeploymentBucket plain_host (store_provider [''getBucketEncryption'']) b3_plugin)
           [(JStr ''b3'', new_bucket\<lparr>b_encryption := Some (JStr ''aws:kms'')\<rparr>)])
       = [Request ''S3'' ''putBucketEncryption''
            (encryption_params (JStr ''b3'') (JStr ''AES256'')) (Inr (Response None))]
   \<and> map_of (remote_after
               (applyDeploymentBucket plain_host (store_provider [''getBucketEncryption'']) b3_plugin)
               [(JStr ''b3'', new_bucket\<lparr>b_encryption := Some (JStr ''aws:kms'')\<rparr>)])
        (JStr ''b3'')
       = Some \<lparr> b_encryption =
                  Some (JObj [(''Rules'',
                               JArr [JObj [(''ApplyServerSideEncryptionByDefault'',
                                            JObj [(''SSEAlgorithm'', JStr ''AES256''),
                                                  (''KMSMasterKeyID'', JUndefined)])]] [])]),
                b_versioning = Some ''Enabled'', b_acceleration = None,
                b_policy = Some (JStr ''{}'') \<rparr>"
  by (simp add: model_defs store_defs b3_plugin_def encryption_params_def)

section \<open>Existence\<close>

lemma existence_no_name:
  assumes "get_prop h (deploymentBucket this) ''name'' = Inl e"
  shows "emitted (applyDeploymentBucket_existence h P this) w = []"
    and "outcome (applyDeploymentBucket_existence h P this) w = Inl e"
  using assms by (simp_all add: applyDeploymentBucket_existence_def run_simps)

lemma try_requests_headBucket:
  "requests_of ''headBucket'' (emitted (applyDeploymentBucket_try h P this) w)
     = requests_of ''headBucket'' (emitted (applyDeploymentBucket_existence h P this) w)"
  by (simp add: emitted_try requests_of_step_other split: sum.splits)

lemma try_requests_createBucket:
  "requests_of ''createBucket'' (emitted (applyDeploymentBucket_try h P this) w)
     = requests_of ''createBucket'' (emitted (applyDeploymentBucket_existence h P this) w)"
  by (simp add: emitted_try requests_of_step_other split: sum.splits)

lemma try_requests_waitFor:
  "requests_of ''waitFor'' (emitted (applyDeploymentBucket_try h P this) w)
     = requests_of ''waitFor'' (emitted (applyDeploymentBucket_existence h P this) w)"
  by (simp add: emitted_try requests_of_step_other split: sum.splits)

lemma try_operations_prefix:
  "\<exists>rest. operations (emitted (applyDeploymentBucket_try h P this) w)
            = operations (emitted (applyDeploymentBucket_existence h P this) w) @ rest"
  by (simp add: emitted_try)

lemma try_operations_stopped:
  "outcome (applyDeploymentBucket_existence h P this) w = Inl e
   \<Longrightarrow> operations (emitted (applyDeploymentBucket_try h P this) w)
        = operations (emitted (applyDeploymentBucket_existence h P this) w)"
  by (simp add: emitted_try)

lemma existence_present:
  assumes "get_prop h (deploymentBucket this) ''name'' = Inr name"
    and "fst (request P ''S3'' ''headBucket'' (bucket_params name) w) = Inr r0"
  shows "requests_of ''headBucket'' (emitted (applyDeploymentBucket_existence h P this) w)
           = [Request ''S3'' ''headBucket'' (bucket_params name) (Inr r0)]"
    and "requests_of ''createBucket'' (emitted (applyDeploymentBucket_existence h P this) w) = []"
    and "requests_of ''waitFor'' (emitted (applyDeploymentBucket_existence h P this) w) = []"
  using assms(2) by (simp_all add: emitted_existence [OF assms(1)])

lemma existence_create_failed:
  assumes "get_prop h (deploymentBucket this) ''name'' = Inr name"
    and "fst (request P ''S3'' ''headBucket'' (bucket_params name) w) = Inl e0"
    and "fst (request P ''S3'' ''createBucket'' (create_params name)
               (snd (request P ''S3'' ''headBucket'' (bucket_params name) w))) = Inl e"
  shows "requests_of ''headBucket'' (emitted (applyDeploymentBucket_existence h P this) w)
           = [Request ''S3'' ''headBucket'' (bucket_params name) (Inl e0)]"
    and "requests_of ''createBucket'' (emitted (applyDeploymentBucket_existence h P this) w)
           = [Request ''S3'' ''createBucket'' (create_params name) (Inl e)]"
    and "requests_of ''waitFor'' (emitted (applyDeploymentBucket_existence h P this) w) = []"
    and "operations (emitted (applyDeploymentBucket_existence h P this) w)
           = [''headBucket'', ''createBucket'']"
    and "outcome (applyDeploymentBucket_existence h P this) w = Inl e"
  using assms(2,3)
  by (simp_all add: emitted_existence [OF assms(1)] outcome_existence [OF assms(1)])

lemma existence_created:
  assumes "get_prop h (deploymentBucket this) ''name'' = Inr name"
    and "fst (request P ''S3'' ''headBucket'' (bucket_params name) w) = Inl e0"
    and "fst (request P ''S3'' ''createBucket'' (create_params name)
               (snd (request P ''S3'' ''headBucket'' (bucket_params name) w))) = Inr r"
  shows "requests_of ''headBucket'' (emitted (applyDeploymentBucket_existence h P this) w)
           = [Request ''S3'' ''headBucket'' (bucket_params name) (Inl e0)]"
    and "requests_of ''createBucket'' (emitted (applyDeploymentBucket_existence h P this) w)
           = [Request ''S3'' ''createBucket'' (create_params name) (Inr r)]"
    and "length (requests_of ''waitFor'' (emitted (applyDeploymentBucket_existence h P this) w)) = 1"
    and "operations (emitted (applyDeploymentBucket_existence h P this) w)
           = [''headBucket'', ''createBucket'', ''waitFor'']"
  using assms(2,3)
  by (simp_all add: emitted_existence [OF assms(1)] emitted_waitFor split: sum.splits)

text \<open>
  C2, as the code has it. In every run whose existence probe is rejected (the bucket is
  reported absent), \<^verbatim>\<open>createBucket\<close> is called exactly once, directly after the probe.
  When that call is answered, the wait for the bucket is called exactly once, directly
  after it, so that probe, creation and wait are the first three provider calls and come
  before any encryption, versioning, acceleration or policy call. When that call is
  rejected, the run makes no further provider call: the wait is not called. In every run
  whose probe is answered (the bucket is reported present), neither \<^verbatim>\<open>createBucket\<close>
  nor the wait is called.
\<close>

theorem create_then_wait_when_absent:
  "(\<forall>p e0. Request ''S3'' ''headBucket'' p (Inl e0) \<in> set (emitted (applyDeploymentBucket h P this) w)
      \<longrightarrow> length (requests_of ''createBucket'' (emitted (applyDeploymentBucket h P this) w)) = 1
        \<and> take 2 (operations (emitted (applyDeploymentBucket h P this) w))
            = [''headBucket'', ''createBucket''])
   \<and> (\<forall>p e0 p' r.
        Request ''S3'' ''headBucket'' p (Inl e0) \<in> set (emitted (applyDeploymentBucket h P this) w)
        \<and> Request ''S3'' ''createBucket'' p' (Inr r) \<in> set (emitted (applyDeploymentBucket h P this) w)
      \<longrightarrow> take 3 (operations (emitted (applyDeploymentBucket h P this) w))
            = [''headBucket'', ''createBucket'', ''waitFor'']
        \<and> length (requests_of ''waitFor'' (emitted (applyDeploymentBucket h P this) w)) = 1)
   \<and> (\<forall>p e0 p' e.
        Request ''S3'' ''headBucket'' p (Inl e0) \<in> set (emitted (applyDeploymentBucket h P this) w)
        \<and> Request ''S3'' ''createBucket'' p' (Inl e) \<in> set (emitted (applyDeploymentBucket h P this) w)
      \<longrightarrow> operations (emitted (applyDeploymentBucket h P this) w) = [''headBucket'', ''createBucket''])
   \<and> (\<forall>p r. Request ''S3'' ''headBucket'' p (Inr r) \<in> set (emitted (applyDeploymentBucket h P this) w)
      \<longrightarrow> requests_of ''createBucket'' (emitted (applyDeploymentBucket h P this) w) = []
        \<and> requests_of ''waitFor'' (emitted (applyDeploymentBucket h P this) w) = [])"
  (is "?absent \<and> ?created \<and> ?refused \<and> ?present")
proof -
  let ?evs = "emitted (applyDeploymentBucket h P this) w"
  let ?s1 = "emitted (applyDeploymentBucket_existence h P this) w"
  have heads: "requests_of ''headBucket'' ?evs = requests_of ''headBucket'' ?s1"
    by (simp only: run_requests try_requests_headBucket)
  have creates: "requests_of ''createBucket'' ?evs = requests_of ''createBucket'' ?s1"
    by (simp only: run_requests try_requests_createBucket)
  have waits: "requests_of ''waitFor'' ?evs = requests_of ''waitFor'' ?s1"
    by (simp only: run_requests try_requests_waitFor)
  have mem_head: "\<And>p r. Request ''S3'' ''headBucket'' p r \<in> set ?evs
      \<longleftrightarrow> Request ''S3'' ''headBucket'' p r \<in> set (requests_of ''headBucket'' ?s1)"
    using request_in_requests_of [of "''S3''" "''headBucket''" _ _ ?evs] by (simp only: heads)
  have mem_create: "\<And>p r. Request ''S3'' ''createBucket'' p r \<in> set ?evs
      \<longleftrightarrow> Request ''S3'' ''createBucket'' p r \<in> set (requests_of ''createBucket'' ?s1)"
    using request_in_requests_of [of "''S3''" "''createBucket''" _ _ ?evs] by (simp only: creates)
  obtain rest where ops: "operations ?evs = operations ?s1 @ rest"
    using try_operations_prefix [of h P this w] by (auto simp only: run_operations)
  show ?thesis
  proof (cases "get_prop h (deploymentBucket this) ''name''")
    case (Inl e)
    have none: "\<And>operation. requests_of operation ?s1 = []"
      by (simp add: existence_no_name [OF Inl])
    show ?thesis
      by (simp add: mem_head mem_create none)
  next
    case name: (Inr name)
    show ?thesis
    proof (cases "fst (request P ''S3'' ''headBucket'' (bucket_params name) w)")
      case (Inr r0)
      note shape = existence_present [OF name Inr]
      show ?thesis
        by (simp add: mem_head mem_create creates waits shape)
    next
      case probe: (Inl e0)
      show ?thesis
      proof (cases "fst (request P ''S3'' ''createBucket'' (create_params name)
               (snd (request P ''S3'' ''headBucket'' (bucket_params name) w)))")
        case (Inl e)
        note shape = existence_create_failed [OF name probe Inl]
        have all: "operations ?evs = [''headBucket'', ''createBucket'']"
          using try_operations_stopped [OF shape(5)] shape(4) by (simp only: run_operations)
        show ?thesis
          by (simp add: mem_head mem_create creates waits shape(1-3) all)
      next
        case (Inr r)
        note shape = existence_created [OF name probe Inr]
        have three: "take 3 (operations ?evs) = [''headBucket'', ''createBucket'', ''waitFor'']"
          and two: "take 2 (operations ?evs) = [''headBucket'', ''createBucket'']"
          by (simp_all add: ops shape(4))
        show ?thesis
          by (simp add: mem_head mem_create creates waits shape(1-3) two three)
      qed
    qed
  qed
qed

theorem create_then_wait_when_absent_witness:
  "Request ''S3'' ''headBucket'' (bucket_params (JStr ''b2'')) (Inl (ProviderError ''NoSuchBucket''))
     \<in> set (emitted (applyDeploymentBucket plain_host (store_provider []) b2_plugin) [])
   \<and> Request ''S3'' ''createBucket'' (create_params (JStr ''b2'')) (Inr (Response None))
     \<in> set (emitted (applyDeploymentBucket plain_host (store_provider []) b2_plugin) [])
   \<and> take 3 (operations (emitted (applyDeploymentBucket plain_host (store_provider []) b2_plugin) []))
       = [''headBucket'', ''createBucket'', ''waitFor'']
   \<and> length (requests_of ''createBucket''
        (emitted (applyDeploymentBucket plain_host (store_provider []) b2_plugin) [])) = 1
   \<and> length (requests_of ''waitFor''
        (emitted (applyDeploymentBucket plain_host (store_provider []) b2_plugin) [])) = 1
   \<and> Request ''S3'' ''headBucket'' (bucket_params (JStr ''b2'')) (Inl (ProviderError ''NoSuchBucket''))
     \<in> set (emitted (applyDeploymentBucket plain_host (store_provider [''createBucket'']) b2_plugin) [])
   \<and> Request ''S3'' ''createBucket'' (create_params (JStr ''b2'')) (Inl (ProviderError ''AccessDenied''))
     \<in> set (emitted (applyDeploymentBucket plain_host (store_provider [''createBucket'']) b2_plugin) [])
   \<and> operations (emitted (applyDeploymentBucket plain_host (store_provider [''createBucket'']) b2_plugin) [])
       = [''headBucket'', ''createBucket'']
   \<and> Request ''S3'' ''headBucket'' (bucket_params (JStr ''b2'')) (Inr (Response None))
     \<in> set (emitted (applyDeploymentBucket plain_host (store_provider []) b2_plugin)
               [(JStr ''b2'', new_bucket)])
   \<and> requests_of ''createBucket''
        (emitted (applyDeploymentBucket plain_host (store_provider []) b2_plugin)
           [(JStr ''b2'', new_bucket)]) = []
   \<and> requests_of ''waitFor''
        (emitted (applyDeploymentBucket plain_host (store_provider []) b2_plugin)
           [(JStr ''b2'', new_bucket)]) = []"
proof -
  let ?ok = "emitted (applyDeploymentBucket plain_host (store_provider []) b2_plugin) []"
  let ?refused = "emitted (applyDeploymentBucket plain_host (store_provider [''createBucket'']) b2_plugin) []"
  let ?there = "emitted (applyDeploymentBucket plain_host (store_provider []) b2_plugin)
                  [(JStr ''b2'', new_bucket)]"
  have p1: "Request ''S3'' ''headBucket'' (bucket_params (JStr ''b2''))
              (Inl (ProviderError ''NoSuchBucket'')) \<in> set ?ok"
    by (simp add: model_defs store_defs b2_plugin_def)
  have c1: "Request ''S3'' ''createBucket'' (create_params (JStr ''b2'')) (Inr (Response None))
              \<in> set ?ok"
    by (simp add: model_defs store_defs b2_plugin_def)
  have p2: "Request ''S3'' ''headBucket'' (bucket_params (JStr ''b2''))
              (Inl (ProviderError ''NoSuchBucket'')) \<in> set ?refused"
    by (simp add: model_defs store_defs b2_plugin_def)
  have c2: "Request ''S3'' ''createBucket'' (create_params (JStr ''b2''))
              (Inl (ProviderError ''AccessDenied'')) \<in> set ?refused"
    by (simp add: model_defs store_defs b2_plugin_def)
  have p3: "Request ''S3'' ''headBucket'' (bucket_params (JStr ''b2'')) (Inr (Response None))
              \<in> set ?there"
    by (simp add: model_defs store_defs b2_plugin_def)
  from p1 c1 create_then_wait_when_absent [of plain_host "store_provider []" b2_plugin "[]"]
  have a: "take 3 (operations ?ok) = [''headBucket'', ''createBucket'', ''waitFor'']
           \<and> length (requests_of ''createBucket'' ?ok) = 1
           \<and> length (requests_of ''waitFor'' ?ok) = 1"
    by blast
  from p2 c2
    create_then_wait_when_absent [of plain_host "store_provider [''createBucket'']" b2_plugin "[]"]
  have b: "operations ?refused = [''headBucket'', ''createBucket'']"
    by blast
  from p3
    create_then_wait_when_absent [of plain_host "store_provider []" b2_plugin "[(JStr ''b2'', new_bucket)]"]
  have c: "requests_of ''createBucket'' ?there = [] \<and> requests_of ''waitFor'' ?there = []"
    by blast
  from p1 c1 a p2 c2 b p3 c show ?thesis by blast
qed

text \<open>
  The claim C2 as the specification words it, exactly one wait in every run whose probe
  reports the bucket absent, fails where \<^verbatim>\<open>createBucket\<close> is rejected: the probe
  reports absent, the creation is called once, and the wait is never called.
\<close>

theorem create_then_wait_counterexample:
  "outcome (bucketExists (store_provider [''createBucket'']) (JStr ''b2'')) [] = Inr False
   \<and> get_prop plain_host (deploymentBucket b2_plugin) ''name'' = Inr (JStr ''b2'')
   \<and> length (requests_of ''createBucket''
        (emitted (applyDeploymentBucket plain_host (store_provider [''createBucket'']) b2_plugin) []))
       = 1
   \<and> length (requests_of ''waitFor''
        (emitted (applyDeploymentBucket plain_host (store_provider [''createBucket'']) b2_plugin) []))
       \<noteq> 1"
  by (simp add: model_defs store_defs b2_plugin_def)

section \<open>Policy\<close>

lemma policy_put_requests:
  "requests_of ''putBucketPolicy'' (emitted (applyDeploymentBucket_policy h P this) w) =
    (case get_prop h (config this) ''policy'' of
       Inl e \<Rightarrow> []
     | Inr policy \<Rightarrow>
        if truthy policy then
          (case get_prop h (deploymentBucket this) ''name'' of
             Inl e \<Rightarrow> []
           | Inr name \<Rightarrow>
               [Request ''S3'' ''putBucketPolicy'' (policy_params h name policy)
                  (fst (request P ''S3'' ''putBucketPolicy'' (policy_params h name policy) w))])
        else [])"
  by (simp add: applyDeploymentBucket_policy_def run_simps call_simps policy_params_def
      split: sum.splits)

lemma run_requests_policy:
  "requests_of ''putBucketPolicy'' (emitted (applyDeploymentBucket h P this) w) =
    (if reaches_policy h P this w
     then requests_of ''putBucketPolicy''
            (emitted (applyDeploymentBucket_policy h P this) (after_acceleration h P this w))
     else [])"
  by (simp add: run_requests try_requests_putBucketPolicy reaches_policy_def split: sum.splits)

text \<open>
  C5, as the code has it. In every run that reaches its fifth statement (none of the four
  statements before it raised) and whose \<^verbatim>\<open>policy\<close> is set (truthy),
  \<^verbatim>\<open>putBucketPolicy\<close> is called exactly once, with the bucket name and the policy
  serialized by \<^verbatim>\<open>JSON.stringify\<close>. A run that stops before its fifth statement does
  not call it, and neither does a run whose \<^verbatim>\<open>policy\<close> is not set. No run calls it
  twice, and no run reads the bucket's current policy.
\<close>

theorem policy_applied_when_reached:
  "(\<forall>policy name.
       reaches_policy h P this w
       \<and> get_prop h (config this) ''policy'' = Inr policy \<and> truthy policy
       \<and> get_prop h (deploymentBucket this) ''name'' = Inr name
     \<longrightarrow> requests_of ''putBucketPolicy'' (emitted (applyDeploymentBucket h P this) w)
          = [Request ''S3'' ''putBucketPolicy'' (policy_params h name policy)
               (fst (request P ''S3'' ''putBucketPolicy'' (policy_params h name policy)
                      (after_acceleration h P this w)))])
   \<and> (\<not> reaches_policy h P this w
     \<longrightarrow> requests_of ''putBucketPolicy'' (emitted (applyDeploymentBucket h P this) w) = [])
   \<and> (\<forall>policy. get_prop h (config this) ''policy'' = Inr policy \<and> \<not> truthy policy
     \<longrightarrow> requests_of ''putBucketPolicy'' (emitted (applyDeploymentBucket h P this) w) = [])
   \<and> length (requests_of ''putBucketPolicy'' (emitted (applyDeploymentBucket h P this) w)) \<le> 1
   \<and> ''getBucketPolicy'' \<notin> set (operations (emitted (applyDeploymentBucket h P this) w))"
  (is "?applied \<and> ?aborted \<and> ?unset \<and> ?once \<and> ?unread")
proof -
  have applied: ?applied
    by (auto simp add: run_requests_policy policy_put_requests)
  have aborted: ?aborted
    by (simp add: run_requests_policy)
  have unset: ?unset
    by (auto simp add: run_requests_policy policy_put_requests)
  have once: ?once
    by (simp add: run_requests_policy policy_put_requests split: sum.splits)
  have "''getBucketPolicy'' \<notin> set plugin_operations \<union> {''waitFor''}"
    by (simp add: plugin_operations_def)
  with try_operations_subset [of h P this w] have unread: ?unread
    unfolding run_operations by blast
  from applied aborted unset once unread show ?thesis by blast
qed

lemmas stage_defs = reaches_policy_def after_existence_def after_encryption_def
  after_versioning_def after_acceleration_def policy_params_def encryption_params_def

theorem policy_applied_when_reached_witness:
  "reaches_policy plain_host (store_provider []) b3_plugin [(JStr ''b3'', new_bucket)]
   \<and> get_prop plain_host (config b3_plugin) ''policy'' = Inr (JObj [(''Version'', JStr ''2012-10-17'')])
   \<and> truthy (JObj [(''Version'', JStr ''2012-10-17'')])
   \<and> get_prop plain_host (deploymentBucket b3_plugin) ''name'' = Inr (JStr ''b3'')
   \<and> requests_of ''putBucketPolicy''
         (emitted (applyDeploymentBucket plain_host (store_provider []) b3_plugin)
            [(JStr ''b3'', new_bucket)])
       = [Request ''S3'' ''putBucketPolicy''
            (JObj [(''Bucket'', JStr ''b3''), (''Policy'', JStr ''{}'')]) (Inr (Response None))]
   \<and> \<not> reaches_policy plain_host (store_provider [''putBucketVersioning'']) b3_plugin
         [(JStr ''b3'', new_bucket)]
   \<and> requests_of ''putBucketPolicy''
         (emitted (applyDeploymentBucket plain_host (store_provider [''putBucketVersioning'']) b3_plugin)
            [(JStr ''b3'', new_bucket)]) = []"
proof -
  let ?w = "[(JStr ''b3'', new_bucket)]"
  let ?policy = "JObj [(''Version'', JStr ''2012-10-17'')]"
  have reached: "reaches_policy plain_host (store_provider []) b3_plugin ?w"
    by (simp add: stage_defs model_defs store_defs b3_plugin_def)
  have policy: "get_prop plain_host (config b3_plugin) ''policy'' = Inr ?policy"
    by (simp add: b3_plugin_def)
  have set: "truthy ?policy" by simp
  have name: "get_prop plain_host (deploymentBucket b3_plugin) ''name'' = Inr (JStr ''b3'')"
    by (simp add: b3_plugin_def)
  have answer: "fst (request (store_provider []) ''S3'' ''putBucketPolicy''
                       (policy_params plain_host (JStr ''b3'') ?policy)
                       (after_acceleration plain_host (store_provider []) b3_plugin ?w))
                  = Inr (Response None)"
    by (simp add: stage_defs model_defs store_defs b3_plugin_def)
  have params: "policy_params plain_host (JStr ''b3'') ?policy
                  = JObj [(''Bucket'', JStr ''b3''), (''Policy'', JStr ''{}'')]"
    by (simp add: policy_params_def plain_host_def)
  from reached policy set name
    policy_applied_when_reached [of plain_host "store_provider []" b3_plugin ?w]
  have "requests_of ''putBucketPolicy''
          (emitted (applyDeploymentBucket plain_host (store_provider []) b3_plugin) ?w)
        = [Request ''S3'' ''putBucketPolicy'' (policy_params plain_host (JStr ''b3'') ?policy)
             (fst (request (store_provider []) ''S3'' ''putBucketPolicy''
                     (policy_params plain_host (JStr ''b3'') ?policy)
                     (after_acceleration plain_host (store_provider []) b3_plugin ?w)))]"
    by blast
  with answer params have applied: "requests_of ''putBucketPolicy''
          (emitted (applyDeploymentBucket plain_host (store_provider []) b3_plugin) ?w)
        = [Request ''S3'' ''putBucketPolicy''
            (JObj [(''Bucket'', JStr ''b3''), (''Policy'', JStr ''{}'')]) (Inr (Response None))]"
    by simp
  have stopped: "\<not> reaches_policy plain_host (store_provider [''putBucketVersioning'']) b3_plugin ?w"
    by (simp add: stage_defs model_defs store_defs b3_plugin_def)
  with policy_applied_when_reached
         [of plain_host "store_provider [''putBucketVersioning'']" b3_plugin ?w]
  have skipped: "requests_of ''putBucketPolicy''
         (emitted (applyDeploymentBucket plain_host (store_provider [''putBucketVersioning'']) b3_plugin)
            ?w) = []"
    by blast
  from reached policy set name applied stopped skipped show ?thesis by blast
qed

text \<open>
  The claim C5 as the specification words it, exactly one policy call in every run whose
  \<^verbatim>\<open>policy\<close> is set, fails where an earlier statement raises: here
  \<^verbatim>\<open>putBucketVersioning\<close> is rejected and the run ends before the policy statement.
\<close>

theorem policy_applied_every_run_counterexample:
  "get_prop plain_host (config b3_plugin) ''policy'' = Inr (JObj [(''Version'', JStr ''2012-10-17'')])
   \<and> truthy (JObj [(''Version'', JStr ''2012-10-17'')])
   \<and> operations
         (emitted (applyDeploymentBucket plain_host (store_provider [''putBucketVersioning'']) b3_plugin)
            [(JStr ''b3'', new_bucket)])
       = [''headBucket'', ''getBucketEncryption'', ''putBucketEncryption'',
          ''getBucketVersioning'', ''putBucketVersioning'']
   \<and> length (requests_of ''putBucketPolicy''
         (emitted (applyDeploymentBucket plain_host (store_provider [''putBucketVersioning'']) b3_plugin)
            [(JStr ''b3'', new_bucket)])) \<noteq> 1"
  by (simp add: model_defs store_defs b3_plugin_def)

section \<open>Versioning and acceleration\<close>























































end
